theory Spec2Isabelle
  imports Complex_Main
begin

section \<open>Python values\<close>

text \<open>
  The exceptions that the functions of \<^verbatim>\<open>Model_functions.py\<close> can end with. A raise
  is the left injection of a sum; \<^verbatim>\<open>exit()\<close> raises SystemExit.
\<close>

datatype error =
    ZeroDivisionError
  | UnboundLocalError
  | RuntimeError
  | ValueError
  | FileNotFoundError
  | SystemExit

text \<open>
  A Python float as far as the code looks at it: the two infinities, not-a-number and the
  finite values. Finite arithmetic is exact (rounding and overflow of finite sums are left
  out); the comparison and the special values follow IEEE 754, which is what
  \<^verbatim>\<open>min_valid_loss > valid_loss\<close> reads.
\<close>

datatype pyfloat = NaN | NegInf | Fin real | PosInf

fun fadd :: "pyfloat \<Rightarrow> pyfloat \<Rightarrow> pyfloat" where
  "fadd NaN y = NaN"
| "fadd (Fin a) NaN = NaN"
| "fadd (Fin a) (Fin b) = Fin (a + b)"
| "fadd (Fin a) PosInf = PosInf"
| "fadd (Fin a) NegInf = NegInf"
| "fadd PosInf NaN = NaN"
| "fadd PosInf NegInf = NaN"
| "fadd PosInf (Fin b) = PosInf"
| "fadd PosInf PosInf = PosInf"
| "fadd NegInf NaN = NaN"
| "fadd NegInf PosInf = NaN"
| "fadd NegInf (Fin b) = NegInf"
| "fadd NegInf NegInf = NegInf"

text \<open>\<^verbatim>\<open>a > b\<close> on floats: false as soon as one side is not a number.\<close>

fun fgt :: "pyfloat \<Rightarrow> pyfloat \<Rightarrow> bool" where
  "fgt (Fin a) (Fin b) = (b < a)"
| "fgt (Fin a) NegInf = True"
| "fgt PosInf (Fin b) = True"
| "fgt PosInf NegInf = True"
| "fgt x y = False"

text \<open>\<^verbatim>\<open>x / len(loader)\<close>: a float divided by a length; Python raises on length 0.\<close>

definition fdiv_len :: "pyfloat \<Rightarrow> nat \<Rightarrow> error + pyfloat" where
  "fdiv_len x n =
     (if n = 0 then Inl ZeroDivisionError
      else Inr (case x of Fin a \<Rightarrow> Fin (a / real n) | y \<Rightarrow> y))"

text \<open>\<^verbatim>\<open>100 * correct / total\<close>: true division of two ints, a finite float.\<close>

definition percent :: "nat \<Rightarrow> nat \<Rightarrow> error + real" where
  "percent correct total_n =
     (if total_n = 0 then Inl ZeroDivisionError
      else Inr (real (100 * correct) / real total_n))"

section \<open>The library the code calls\<close>

text \<open>
  The model, the criterion and the optimizer are objects of the numerical library; the
  code only calls them. Their behaviour is a parameter: \<open>'w\<close> is the state of the model
  (its \<^verbatim>\<open>state_dict\<close>), \<open>'o\<close> the state of the optimizer, \<open>'x\<close> a batch of inputs and
  \<open>'out\<close> the tensor a forward pass returns. Labels are a one-dimensional tensor of class
  indices, a \<open>nat list\<close>, and \<^verbatim>\<open>labels.size(0)\<close> is its length.

  \<^item> \<open>forward training w x\<close> is \<^verbatim>\<open>model(data)\<close> in training or evaluation mode: the
    outputs and the model after the call (a forward pass may update buffers);
  \<^item> \<open>criterion out labels\<close> is \<^verbatim>\<open>criterion(outputs, labels).item()\<close>;
  \<^item> \<open>backward_step w o x labels\<close> is \<^verbatim>\<open>loss.backward(); optimizer.step()\<close> after
    \<^verbatim>\<open>optimizer.zero_grad()\<close>: the new model and optimizer states;
  \<^item> \<open>argmax1 out\<close> is the index tensor of \<^verbatim>\<open>torch.max(outputs.data, 1)\<close>.
\<close>

record ('w, 'o, 'x, 'out) torch =
  forward :: "bool \<Rightarrow> 'w \<Rightarrow> 'x \<Rightarrow> 'out \<times> 'w"
  criterion :: "'out \<Rightarrow> nat list \<Rightarrow> pyfloat"
  backward_step :: "'w \<Rightarrow> 'o \<Rightarrow> 'x \<Rightarrow> nat list \<Rightarrow> 'w \<times> 'o"
  argmax1 :: "'out \<Rightarrow> nat list"

text \<open>A loader yields pairs of an input batch and a label batch; its \<^verbatim>\<open>len\<close> is the
  number of batches.\<close>

type_synonym 'x batch = "'x \<times> nat list"

text \<open>
  \<^verbatim>\<open>(predicted == labels).sum().item()\<close> on two one-dimensional tensors. The comparison
  broadcasts: tensors of the same size are compared position by position, a tensor of size
  one is compared with every element of the other, and any other pair of sizes raises. The
  result of the comparison has the size of the larger tensor, and the sum counts its true
  entries.
\<close>

definition broadcastable :: "nat list \<Rightarrow> nat list \<Rightarrow> bool" where
  "broadcastable predicted labels \<longleftrightarrow>
     length predicted = length labels \<or> length predicted = 1 \<or> length labels = 1"

definition eq_count :: "nat list \<Rightarrow> nat list \<Rightarrow> nat" where
  "eq_count predicted labels =
     (if length predicted = length labels
      then length (filter (\<lambda>(p, l). p = l) (zip predicted labels))
      else if length predicted = 1
      then length (filter (\<lambda>l. hd predicted = l) labels)
      else length (filter (\<lambda>p. p = hd labels) predicted))"

definition eq_sum :: "nat list \<Rightarrow> nat list \<Rightarrow> error + nat" where
  "eq_sum predicted labels =
     (if broadcastable predicted labels then Inr (eq_count predicted labels)
      else Inl RuntimeError)"

section \<open>One pass over a loader\<close>

subsection \<open>\<^verbatim>\<open>train_epoch\<close>\<close>

text \<open>The body of the loop of \<^verbatim>\<open>train_epoch\<close> on the accumulators
  (model, optimizer, \<^verbatim>\<open>train_loss\<close>, \<^verbatim>\<open>correct\<close>, \<^verbatim>\<open>total\<close>).\<close>

fun train_batch ::
  "('w, 'o, 'x, 'out) torch \<Rightarrow> 'w \<times> 'o \<times> pyfloat \<times> nat \<times> nat \<Rightarrow> 'x batch
     \<Rightarrow> error + ('w \<times> 'o \<times> pyfloat \<times> nat \<times> nat)" where
  "train_batch L (model, opt, train_loss, correct, total_n) (data, labels) =
     (let (outputs, model1) = forward L True model data;
          loss = criterion L outputs labels;
          (model2, opt2) = backward_step L model1 opt data labels;
          train_loss = fadd train_loss loss;
          predicted = argmax1 L outputs;
          total_n = total_n + length labels
      in case eq_sum predicted labels of
           Inl e \<Rightarrow> Inl e
         | Inr c \<Rightarrow> Inr (model2, opt2, train_loss, correct + c, total_n))"

fun train_loop ::
  "('w, 'o, 'x, 'out) torch \<Rightarrow> 'w \<times> 'o \<times> pyfloat \<times> nat \<times> nat \<Rightarrow> 'x batch list
     \<Rightarrow> error + ('w \<times> 'o \<times> pyfloat \<times> nat \<times> nat)" where
  "train_loop L acc [] = Inr acc"
| "train_loop L acc (b # bs) =
     (case train_batch L acc b of Inl e \<Rightarrow> Inl e | Inr acc' \<Rightarrow> train_loop L acc' bs)"

text \<open>The result is \<^verbatim>\<open>(avg_train_loss, train_accuracy)\<close> with the model and the
  optimizer as the pass left them.\<close>

definition train_epoch ::
  "('w, 'o, 'x, 'out) torch \<Rightarrow> 'w \<Rightarrow> 'o \<Rightarrow> 'x batch list
     \<Rightarrow> error + (pyfloat \<times> real \<times> 'w \<times> 'o)" where
  "train_epoch L model opt train_loader =
     (case train_loop L (model, opt, Fin 0, 0, 0) train_loader of
        Inl e \<Rightarrow> Inl e
      | Inr (model', opt', train_loss, correct, total_n) \<Rightarrow>
          (case fdiv_len train_loss (length train_loader) of
             Inl e \<Rightarrow> Inl e
           | Inr avg_train_loss \<Rightarrow>
               (case percent correct total_n of
                  Inl e \<Rightarrow> Inl e
                | Inr train_accuracy \<Rightarrow>
                    Inr (avg_train_loss, train_accuracy, model', opt'))))"

subsection \<open>\<^verbatim>\<open>validate_epoch\<close>\<close>

fun validate_batch ::
  "('w, 'o, 'x, 'out) torch \<Rightarrow> 'w \<times> pyfloat \<times> nat \<times> nat \<Rightarrow> 'x batch
     \<Rightarrow> error + ('w \<times> pyfloat \<times> nat \<times> nat)" where
  "validate_batch L (model, valid_loss, correct, total_n) (data, labels) =
     (let (outputs, model1) = forward L False model data;
          loss = criterion L outputs labels;
          valid_loss = fadd valid_loss loss;
          predicted = argmax1 L outputs;
          total_n = total_n + length labels
      in case eq_sum predicted labels of
           Inl e \<Rightarrow> Inl e
         | Inr c \<Rightarrow> Inr (model1, valid_loss, correct + c, total_n))"

fun validate_loop ::
  "('w, 'o, 'x, 'out) torch \<Rightarrow> 'w \<times> pyfloat \<times> nat \<times> nat \<Rightarrow> 'x batch list
     \<Rightarrow> error + ('w \<times> pyfloat \<times> nat \<times> nat)" where
  "validate_loop L acc [] = Inr acc"
| "validate_loop L acc (b # bs) =
     (case validate_batch L acc b of Inl e \<Rightarrow> Inl e | Inr acc' \<Rightarrow> validate_loop L acc' bs)"

definition validate_epoch ::
  "('w, 'o, 'x, 'out) torch \<Rightarrow> 'w \<Rightarrow> 'x batch list \<Rightarrow> error + (pyfloat \<times> real \<times> 'w)" where
  "validate_epoch L model val_loader =
     (case validate_loop L (model, Fin 0, 0, 0) val_loader of
        Inl e \<Rightarrow> Inl e
      | Inr (model', valid_loss, correct, total_n) \<Rightarrow>
          (case fdiv_len valid_loss (length val_loader) of
             Inl e \<Rightarrow> Inl e
           | Inr avg_valid_loss \<Rightarrow>
               (case percent correct total_n of
                  Inl e \<Rightarrow> Inl e
                | Inr valid_accuracy \<Rightarrow> Inr (avg_valid_loss, valid_accuracy, model'))))"

subsection \<open>\<^verbatim>\<open>test_model\<close>\<close>

fun test_batch ::
  "('w, 'o, 'x, 'out) torch \<Rightarrow> 'w \<times> nat \<times> nat \<Rightarrow> 'x batch \<Rightarrow> error + ('w \<times> nat \<times> nat)" where
  "test_batch L (model, correct, total_n) (data, labels) =
     (let (outputs, model1) = forward L False model data;
          predicted = argmax1 L outputs;
          total_n = total_n + length labels
      in case eq_sum predicted labels of
           Inl e \<Rightarrow> Inl e
         | Inr c \<Rightarrow> Inr (model1, correct + c, total_n))"

fun test_loop ::
  "('w, 'o, 'x, 'out) torch \<Rightarrow> 'w \<times> nat \<times> nat \<Rightarrow> 'x batch list \<Rightarrow> error + ('w \<times> nat \<times> nat)" where
  "test_loop L acc [] = Inr acc"
| "test_loop L acc (b # bs) =
     (case test_batch L acc b of Inl e \<Rightarrow> Inl e | Inr acc' \<Rightarrow> test_loop L acc' bs)"

definition test_model ::
  "('w, 'o, 'x, 'out) torch \<Rightarrow> 'w \<Rightarrow> 'x batch list \<Rightarrow> error + (real \<times> 'w)" where
  "test_model L model test_loader =
     (case test_loop L (model, 0, 0) test_loader of
        Inl e \<Rightarrow> Inl e
      | Inr (model', correct, total_n) \<Rightarrow>
          (case percent correct total_n of
             Inl e \<Rightarrow> Inl e
           | Inr test_accuracy \<Rightarrow> Inr (test_accuracy, model')))"

subsection \<open>What a pass sees, batch by batch\<close>

text \<open>
  For the statement that a pass visits every batch once and accumulates: the list of what
  the loop of \<^verbatim>\<open>train_epoch\<close> (of \<^verbatim>\<open>validate_epoch\<close>) computes at each batch, in the
  order of the loader, as a triple of the loss of the batch, the number of true entries of
  the comparison of predictions and labels, and the number of labels. The model and the
  optimizer move from batch to batch as in the loop.
\<close>

fun train_trace ::
  "('w, 'o, 'x, 'out) torch \<Rightarrow> 'w \<Rightarrow> 'o \<Rightarrow> 'x batch list \<Rightarrow> (pyfloat \<times> nat \<times> nat) list" where
  "train_trace L model opt [] = []"
| "train_trace L model opt ((data, labels) # bs) =
     (let (outputs, model1) = forward L True model data;
          (model2, opt2) = backward_step L model1 opt data labels
      in (criterion L outputs labels,
          eq_count (argmax1 L outputs) labels,
          length labels) # train_trace L model2 opt2 bs)"

fun validate_trace ::
  "('w, 'o, 'x, 'out) torch \<Rightarrow> 'w \<Rightarrow> 'x batch list \<Rightarrow> (pyfloat \<times> nat \<times> nat) list" where
  "validate_trace L model [] = []"
| "validate_trace L model ((data, labels) # bs) =
     (let (outputs, model1) = forward L False model data
      in (criterion L outputs labels,
          eq_count (argmax1 L outputs) labels,
          length labels) # validate_trace L model1 bs)"

definition batch_loss :: "pyfloat \<times> nat \<times> nat \<Rightarrow> pyfloat" where
  "batch_loss b = fst b"

definition batch_correct :: "pyfloat \<times> nat \<times> nat \<Rightarrow> nat" where
  "batch_correct b = fst (snd b)"

definition batch_size :: "pyfloat \<times> nat \<times> nat \<Rightarrow> nat" where
  "batch_size b = snd (snd b)"

text \<open>
  Three conditions on the shapes that the model returns on the batches of a loader, each
  for every state and mode of the model. \<open>shapes_agree\<close>: one prediction per label, the
  shape contract of a classifier. \<open>shapes_broadcast\<close>: the comparison of predictions and
  labels does not raise. \<open>single_label_safe\<close>: a batch of exactly one label gets at most
  one prediction, so that the comparison never has more entries than there are labels.
\<close>

definition shapes_agree :: "('w, 'o, 'x, 'out) torch \<Rightarrow> 'x batch list \<Rightarrow> bool" where
  "shapes_agree L loader \<longleftrightarrow>
     (\<forall>(data, labels)\<in>set loader. \<forall>training w.
        length (argmax1 L (fst (forward L training w data))) = length labels)"

definition shapes_broadcast :: "('w, 'o, 'x, 'out) torch \<Rightarrow> 'x batch list \<Rightarrow> bool" where
  "shapes_broadcast L loader \<longleftrightarrow>
     (\<forall>(data, labels)\<in>set loader. \<forall>training w.
        broadcastable (argmax1 L (fst (forward L training w data))) labels)"

definition single_label_safe :: "('w, 'o, 'x, 'out) torch \<Rightarrow> 'x batch list \<Rightarrow> bool" where
  "single_label_safe L loader \<longleftrightarrow>
     (\<forall>(data, labels)\<in>set loader. \<forall>training w.
        length labels = 1 \<longrightarrow> length (argmax1 L (fst (forward L training w data))) \<le> 1)"

text \<open>
  The two results in the words of the specification: the accumulated loss divided by the
  number of batches, and 100 times the accumulated correct count divided by the number of
  samples seen.
\<close>

definition spec_mean_loss :: "pyfloat list \<Rightarrow> nat \<Rightarrow> pyfloat" where
  "spec_mean_loss losses n =
     (case foldl fadd (Fin 0) losses of Fin a \<Rightarrow> Fin (a / real n) | y \<Rightarrow> y)"

definition spec_accuracy :: "nat list \<Rightarrow> nat list \<Rightarrow> real" where
  "spec_accuracy corrects sizes = 100 * real (sum_list corrects) / real (sum_list sizes)"

section \<open>\<^verbatim>\<open>train_and_validate_model\<close>\<close>

text \<open>
  What one iteration of the epoch loop did, kept as a history variable: no decision of the
  code reads it. \<open>it_ct_in\<close> is \<^verbatim>\<open>stopping_ct\<close> when the iteration starts and
  \<open>it_ct_out\<close> when it ends, \<open>it_ran\<close> says that the passes ran (the lists grew),
  \<open>it_min_in\<close> and \<open>it_valid\<close> are the two sides of the comparison
  \<^verbatim>\<open>min_valid_loss > valid_loss\<close>, \<open>it_saved\<close> says that \<^verbatim>\<open>torch.save\<close> was
  called, and \<open>it_model\<close> is the state of the model when the iteration ends.
\<close>

record 'w iteration =
  it_epoch :: nat
  it_ct_in :: int
  it_ran :: bool
  it_min_in :: pyfloat
  it_valid :: "pyfloat option"
  it_saved :: bool
  it_ct_out :: int
  it_model :: 'w

text \<open>
  The variables of the function, the model and the optimizer it mutates, and the file at
  \<^verbatim>\<open>model_filename\<close> (\<open>None\<close> when there is no such file). \<open>valid_loss\<close> is
  \<open>None\<close> until the first assignment: reading it then raises UnboundLocalError.
  \<open>saves\<close> counts the calls of \<^verbatim>\<open>torch.save\<close> and, like \<open>history\<close>, is only
  observed. Console output is left out.
\<close>

record ('w, 'o) tv_state =
  tv_model :: 'w
  tv_opt :: 'o
  min_valid_loss :: pyfloat
  valid_loss :: "pyfloat option"
  stopping_ct :: int
  total_loss_train :: "pyfloat list"
  total_loss_val :: "pyfloat list"
  total_acc_train :: "real list"
  total_acc_val :: "real list"
  checkpoint :: "'w option"
  saves :: nat
  history :: "'w iteration list"

text \<open>
  The arguments that stay fixed during a run. A loader is iterated once per epoch and may
  yield other batches each time (shuffling), so it is a function of the epoch.
\<close>

record ('w, 'o, 'x, 'out) tv_args =
  lib :: "('w, 'o, 'x, 'out) torch"
  train_loader :: "nat \<Rightarrow> 'x batch list"
  val_loader :: "nat \<Rightarrow> 'x batch list"
  patience :: int

text \<open>Lines 94 to 101: the guarded calls of the two passes.\<close>

definition run_passes ::
  "('w, 'o, 'x, 'out) tv_args \<Rightarrow> nat \<Rightarrow> ('w, 'o) tv_state \<Rightarrow> error + ('w, 'o) tv_state" where
  "run_passes A epoch s =
     (if stopping_ct s < patience A then
        (case train_epoch (lib A) (tv_model s) (tv_opt s) (train_loader A epoch) of
           Inl e \<Rightarrow> Inl e
         | Inr (train_loss, train_acc, model1, opt1) \<Rightarrow>
             (case validate_epoch (lib A) model1 (val_loader A epoch) of
                Inl e \<Rightarrow> Inl e
              | Inr (vloss, valid_acc, model2) \<Rightarrow>
                  Inr (s\<lparr>tv_model := model2, tv_opt := opt1,
                         valid_loss := Some vloss,
                         total_loss_train := total_loss_train s @ [train_loss],
                         total_loss_val := total_loss_val s @ [vloss],
                         total_acc_train := total_acc_train s @ [train_acc],
                         total_acc_val := total_acc_val s @ [valid_acc]\<rparr>)))
      else Inr s)"

text \<open>Lines 107 to 114: the comparison, outside the guard.\<close>

definition checkpoint_decision :: "('w, 'o) tv_state \<Rightarrow> error + ('w, 'o) tv_state" where
  "checkpoint_decision s =
     (case valid_loss s of
        None \<Rightarrow> Inl UnboundLocalError
      | Some v \<Rightarrow>
          (if fgt (min_valid_loss s) v
           then Inr (s\<lparr>min_valid_loss := v, checkpoint := Some (tv_model s),
                       saves := saves s + 1, stopping_ct := 0\<rparr>)
           else Inr (s\<lparr>stopping_ct := stopping_ct s + 1\<rparr>)))"

text \<open>The entry of the history for an iteration from \<open>s\<close> through \<open>s1\<close> (after the
  guarded passes) to \<open>s2\<close>.\<close>

definition record_iteration ::
  "nat \<Rightarrow> ('w, 'o) tv_state \<Rightarrow> ('w, 'o) tv_state \<Rightarrow> ('w, 'o) tv_state \<Rightarrow> 'w iteration" where
  "record_iteration epoch s s1 s2 =
     \<lparr>it_epoch = epoch, it_ct_in = stopping_ct s,
      it_ran = (length (total_loss_val s) < length (total_loss_val s1)),
      it_min_in = min_valid_loss s1,
      it_valid = valid_loss s1,
      it_saved = (saves s1 < saves s2),
      it_ct_out = stopping_ct s2, it_model = tv_model s2\<rparr>"

definition epoch_body ::
  "('w, 'o, 'x, 'out) tv_args \<Rightarrow> nat \<Rightarrow> ('w, 'o) tv_state \<Rightarrow> error + ('w, 'o) tv_state" where
  "epoch_body A epoch s =
     (case run_passes A epoch s of
        Inl e \<Rightarrow> Inl e
      | Inr s1 \<Rightarrow>
          (case checkpoint_decision s1 of
             Inl e \<Rightarrow> Inl e
           | Inr s2 \<Rightarrow>
               Inr (s2\<lparr>history := history s2 @ [record_iteration epoch s s1 s2]\<rparr>)))"

text \<open>\<^verbatim>\<open>for epoch in range(epochs)\<close>, over the list of the epochs still to run.\<close>

fun epoch_loop ::
  "('w, 'o, 'x, 'out) tv_args \<Rightarrow> nat list \<Rightarrow> ('w, 'o) tv_state \<Rightarrow> error + ('w, 'o) tv_state" where
  "epoch_loop A [] s = Inr s"
| "epoch_loop A (epoch # rest) s =
     (case epoch_body A epoch s of Inl e \<Rightarrow> Inl e | Inr s' \<Rightarrow> epoch_loop A rest s')"

text \<open>Lines 85 to 91; \<open>file0\<close> is what \<^verbatim>\<open>model_filename\<close> holds before the call.\<close>

definition tv_init :: "'w \<Rightarrow> 'o \<Rightarrow> 'w option \<Rightarrow> ('w, 'o) tv_state" where
  "tv_init model opt file0 =
     \<lparr>tv_model = model, tv_opt = opt, min_valid_loss = PosInf, valid_loss = None,
      stopping_ct = 0, total_loss_train = [], total_loss_val = [],
      total_acc_train = [], total_acc_val = [], checkpoint = file0, saves = 0,
      history = []\<rparr>"

text \<open>Lines 116 and 117: \<^verbatim>\<open>torch.load\<close> raises when the file is not there; otherwise the
  model takes the weights of the file.\<close>

definition load_best :: "('w, 'o) tv_state \<Rightarrow> error + ('w, 'o) tv_state" where
  "load_best s =
     (case checkpoint s of
        None \<Rightarrow> Inl FileNotFoundError
      | Some best_model_state \<Rightarrow> Inr (s\<lparr>tv_model := best_model_state\<rparr>))"

text \<open>
  The whole function. Of the state it returns, the code hands back the model and the four
  lists; the file and the history stay for the theorems. \<^verbatim>\<open>range(epochs)\<close> is empty for
  \<open>epochs \<le> 0\<close>.
\<close>

definition train_and_validate_model ::
  "('w, 'o, 'x, 'out) tv_args \<Rightarrow> 'w \<Rightarrow> 'o \<Rightarrow> int \<Rightarrow> 'w option \<Rightarrow> error + ('w, 'o) tv_state" where
  "train_and_validate_model A model opt epochs file0 =
     (case epoch_loop A [0..<nat epochs] (tv_init model opt file0) of
        Inl e \<Rightarrow> Inl e
      | Inr s \<Rightarrow> load_best s)"

subsection \<open>Observations on the epoch loop\<close>

text \<open>What an entry of the history says about its iteration: the passes ran exactly under
  the guard, the save happened exactly when the comparison held, and the counter was reset
  by a save and advanced by one otherwise.\<close>

definition iteration_ok :: "('w, 'o, 'x, 'out) tv_args \<Rightarrow> 'w iteration \<Rightarrow> bool" where
  "iteration_ok A h \<longleftrightarrow>
     (it_ran h \<longleftrightarrow> it_ct_in h < patience A)
   \<and> (it_saved h \<longleftrightarrow> (\<exists>v. it_valid h = Some v \<and> fgt (it_min_in h) v))
   \<and> it_ct_out h = (if it_saved h then 0 else it_ct_in h + 1)"

text \<open>
  The history entry of the \<open>j\<close>-th iteration after the state \<open>s\<close> when nothing but the
  counter moves: no pass, no save, the counter one up.
\<close>

definition idle_iteration :: "('w, 'o) tv_state \<Rightarrow> nat \<Rightarrow> nat \<Rightarrow> 'w iteration" where
  "idle_iteration s j epoch =
     \<lparr>it_epoch = epoch, it_ct_in = stopping_ct s + int j, it_ran = False,
      it_min_in = min_valid_loss s, it_valid = valid_loss s, it_saved = False,
      it_ct_out = stopping_ct s + int j + 1, it_model = tv_model s\<rparr>"

text \<open>
  The invariant of the epoch loop: no validation loss seen so far is strictly below
  \<^verbatim>\<open>min_valid_loss\<close>; until the first save \<^verbatim>\<open>min_valid_loss\<close> is infinite; after it,
  the file holds the model of the last saving iteration, whose validation loss is
  \<^verbatim>\<open>min_valid_loss\<close> and was not seen earlier.
\<close>

definition tv_inv :: "('w, 'o) tv_state \<Rightarrow> bool" where
  "tv_inv s \<longleftrightarrow>
     (\<forall>v. valid_loss s = Some v \<longrightarrow>
          v \<in> set (total_loss_val s) \<and> \<not> fgt (min_valid_loss s) v)
   \<and> (\<forall>v\<in>set (total_loss_val s). \<not> fgt (min_valid_loss s) v)
   \<and> (\<forall>h\<in>set (history s). \<exists>u. it_valid h = Some u \<and> u \<in> set (total_loss_val s))
   \<and> (if saves s = 0
       then min_valid_loss s = PosInf \<and> (\<forall>h\<in>set (history s). \<not> it_saved h)
       else \<exists>i<length (history s).
              it_saved (history s ! i) \<and> it_ran (history s ! i)
            \<and> it_valid (history s ! i) = Some (min_valid_loss s)
            \<and> checkpoint s = Some (it_model (history s ! i))
            \<and> (\<forall>j<i. it_valid (history s ! j) \<noteq> Some (min_valid_loss s))
            \<and> (\<forall>j<length (history s). i < j \<longrightarrow> \<not> it_saved (history s ! j)))"

section \<open>\<^verbatim>\<open>initialise_model\<close>\<close>

text \<open>
  A network as far as \<^verbatim>\<open>initialise_model\<close> touches it: its parameters, each with the
  flag \<^verbatim>\<open>requires_grad\<close>, and its last layer, a linear layer (\<^verbatim>\<open>fc\<close> of a ResNet,
  \<^verbatim>\<open>classifier\<close> of a DenseNet). \<open>backbone\<close> holds the parameters of all layers but the
  last; \<^verbatim>\<open>model.parameters()\<close> yields them and then those of the last layer.
\<close>

record 'v param =
  p_value :: 'v
  requires_grad :: bool

record 'v linear =
  in_features :: nat
  out_features :: nat
  weight :: "'v param"
  bias :: "'v param"

record 'v net =
  backbone :: "'v param list"
  head :: "'v linear"

definition parameters :: "'v net \<Rightarrow> 'v param list" where
  "parameters model = backbone model @ [weight (head model), bias (head model)]"

text \<open>
  The two constructors of the model library and the initial values of a fresh linear layer
  are parameters. \<^verbatim>\<open>nn.Linear(n, k)\<close> creates its weight and its bias with
  \<^verbatim>\<open>requires_grad\<close> set. A class count is a natural number.
\<close>

record 'v torchvision =
  resnet50 :: "bool \<Rightarrow> 'v net"
  densenet121 :: "bool \<Rightarrow> 'v net"
  linear_init :: "nat \<Rightarrow> nat \<Rightarrow> 'v \<times> 'v"

definition nn_Linear :: "'v torchvision \<Rightarrow> nat \<Rightarrow> nat \<Rightarrow> 'v linear" where
  "nn_Linear TV n k =
     \<lparr>in_features = n, out_features = k,
      weight = \<lparr>p_value = fst (linear_init TV n k), requires_grad = True\<rparr>,
      bias = \<lparr>p_value = snd (linear_init TV n k), requires_grad = True\<rparr>\<rparr>"

text \<open>Lines 127 to 130: with the flag set, every parameter of the model is frozen.\<close>

definition freeze :: "'v param \<Rightarrow> 'v param" where
  "freeze p = p\<lparr>requires_grad := False\<rparr>"

definition set_parameter_requires_grad :: "'v net \<Rightarrow> bool \<Rightarrow> 'v net" where
  "set_parameter_requires_grad model feature_extracting =
     (if feature_extracting
      then model\<lparr>backbone := map freeze (backbone model),
                 head := (head model)\<lparr>weight := freeze (weight (head model)),
                                      bias := freeze (bias (head model))\<rparr>\<rparr>
      else model)"

text \<open>
  Lines 133 to 159. The result is what was printed and either the model or the exception:
  \<^verbatim>\<open>exit()\<close> raises SystemExit.
\<close>

definition initialise_model ::
  "'v torchvision \<Rightarrow> string \<Rightarrow> nat \<Rightarrow> bool \<Rightarrow> bool \<Rightarrow> string list \<times> (error + 'v net)" where
  "initialise_model TV model_name num_classes feature_extract use_pretrained =
     (if model_name = ''resnet_pret'' then
        (let model_ft = resnet50 TV use_pretrained;
             model_ft = set_parameter_requires_grad model_ft feature_extract;
             num_ftrs = in_features (head model_ft)
         in ([], Inr (model_ft\<lparr>head := nn_Linear TV num_ftrs num_classes\<rparr>)))
      else if model_name = ''densenet_pret'' then
        (let model_ft = densenet121 TV use_pretrained;
             model_ft = set_parameter_requires_grad model_ft feature_extract;
             num_ftrs = in_features (head model_ft)
         in ([], Inr (model_ft\<lparr>head := nn_Linear TV num_ftrs num_classes\<rparr>)))
      else ([''Invalid model name, choose between 'resnet_pret', 'densenet_pret'.''],
            Inl SystemExit))"

text \<open>The pretrained network that a recognised name selects.\<close>

definition pretrained_net :: "'v torchvision \<Rightarrow> string \<Rightarrow> bool \<Rightarrow> 'v net" where
  "pretrained_net TV model_name use_pretrained =
     (if model_name = ''resnet_pret'' then resnet50 TV use_pretrained
      else densenet121 TV use_pretrained)"

section \<open>\<^verbatim>\<open>conf_report\<close>\<close>

text \<open>What \<^verbatim>\<open>conf_report\<close> draws, writes and prints, in order. A heat map carries the
  matrix it shows and its tick labels.\<close>

datatype effect =
    Heatmap_normalised "pyfloat list list" "string list"
  | Heatmap_raw "nat list list" "string list"
  | Savefig string
  | Show
  | Print string

text \<open>
  Lines 163 to 170 on the accumulators (model, \<^verbatim>\<open>y_pred\<close>, \<^verbatim>\<open>y_true\<close>). The function
  does not set the mode of the model, so the mode is an argument.
\<close>

fun collect_batches ::
  "('w, 'o, 'x, 'out) torch \<Rightarrow> bool \<Rightarrow> 'w \<times> nat list \<times> nat list \<Rightarrow> 'x batch list
     \<Rightarrow> 'w \<times> nat list \<times> nat list" where
  "collect_batches L training (model_cpu, y_pred, y_true) [] = (model_cpu, y_pred, y_true)"
| "collect_batches L training (model_cpu, y_pred, y_true) ((data, target) # bs) =
     (let (output, model1) = forward L training model_cpu data
      in collect_batches L training (model1, y_pred @ argmax1 L output, y_true @ target) bs)"

definition classes :: "string list" where
  "classes = [''akiec'', ''bcc'', ''bkl'', ''df'', ''mel'', ''nv'', ''vasc'']"

definition dashes :: string where
  "dashes = ''-------------------------------------------------------''"

subsection \<open>The calls of the metrics and data-frame libraries\<close>

text \<open>
  The library calls of \<^verbatim>\<open>conf_report\<close>, as far as their shapes and their exceptions go.
  \<^verbatim>\<open>confusion_matrix(y_true, y_pred)\<close> without \<^verbatim>\<open>labels\<close> raises on sequences of
  different lengths; its classes are the sorted distinct values that occur in either
  sequence, and entry \<open>(i, j)\<close> counts the samples of true class \<open>i\<close> predicted as \<open>j\<close>.
\<close>

definition unique_labels :: "nat list \<Rightarrow> nat list \<Rightarrow> nat list" where
  "unique_labels y_true y_pred = sort (remdups (y_true @ y_pred))"

definition confusion_matrix :: "nat list \<Rightarrow> nat list \<Rightarrow> error + nat list list" where
  "confusion_matrix y_true y_pred =
     (if length y_true \<noteq> length y_pred then Inl ValueError
      else Inr (map (\<lambda>t. map (\<lambda>p. count_list (zip y_true y_pred) (t, p))
                              (unique_labels y_true y_pred))
                    (unique_labels y_true y_pred)))"

text \<open>Line 175, the division by the row sums: \<^verbatim>\<open>0 / 0\<close> is not-a-number in an array.\<close>

definition normalise :: "nat list list \<Rightarrow> pyfloat list list" where
  "normalise cf =
     map (\<lambda>row. map (\<lambda>c. if sum_list row = 0 then (if c = 0 then NaN else PosInf)
                           else Fin (real c / real (sum_list row))) row) cf"

text \<open>\<^verbatim>\<open>pd.DataFrame(values, index, columns)\<close> raises unless the shape of the values is
  that of the index by the columns.\<close>

definition DataFrame :: "'a list list \<Rightarrow> string list \<Rightarrow> string list \<Rightarrow> error + 'a list list" where
  "DataFrame values index columns =
     (if length values = length index \<and> list_all (\<lambda>row. length row = length columns) values
      then Inr values else Inl ValueError)"

text \<open>
  \<^verbatim>\<open>classification_report(y_true, y_pred, target_names)\<close> without \<^verbatim>\<open>labels\<close> raises
  unless there are as many names as classes that occur. The text of the report is a
  parameter \<open>report_text\<close>.
\<close>

definition classification_report ::
  "(nat list \<Rightarrow> nat list \<Rightarrow> string list \<Rightarrow> string) \<Rightarrow> nat list \<Rightarrow> nat list \<Rightarrow> string list
     \<Rightarrow> error + string" where
  "classification_report report_text y_true y_pred target_names =
     (if length y_true \<noteq> length y_pred then Inl ValueError
      else if length (unique_labels y_true y_pred) \<noteq> length target_names then Inl ValueError
      else Inr (report_text y_true y_pred target_names))"

subsection \<open>The function\<close>

text \<open>
  The result is the list of effects up to the point where the function returned or a
  call raised, and the exception if there was one.
\<close>

definition conf_report ::
  "(nat list \<Rightarrow> nat list \<Rightarrow> string list \<Rightarrow> string) \<Rightarrow> ('w, 'o, 'x, 'out) torch \<Rightarrow> bool \<Rightarrow> 'w
     \<Rightarrow> 'x batch list \<Rightarrow> string \<Rightarrow> effect list \<times> error option" where
  "conf_report report_text L training model_fitted loader model_type =
     (let (model_cpu, y_pred, y_true) = collect_batches L training (model_fitted, [], []) loader
      in case confusion_matrix y_true y_pred of
           Inl e \<Rightarrow> ([], Some e)
         | Inr cf_matrix \<Rightarrow>
             (case DataFrame (normalise cf_matrix) classes classes of
                Inl e \<Rightarrow> ([], Some e)
              | Inr df_temp \<Rightarrow>
                  (let figure = [Heatmap_normalised df_temp classes, Heatmap_raw cf_matrix classes,
                                 Savefig (''Confusion_Matrix_'' @ model_type @ ''.png''), Show]
                   in case classification_report report_text y_true y_pred classes of
                        Inl e \<Rightarrow> (figure, Some e)
                      | Inr report \<Rightarrow>
                          (figure @ [Print dashes,
                                     Print (''Classification Report:'' @ [CHR 0x0A]),
                                     Print report, Print dashes], None))))"

subsection \<open>What the loop collects, in the words of the specification\<close>

text \<open>
  The predictions of the model on each batch, in the order of the loader, with the model
  moving from batch to batch as in the loop; one prediction and one label per sample are
  then the concatenation of these and the concatenation of the label batches.
\<close>

fun batch_predictions ::
  "('w, 'o, 'x, 'out) torch \<Rightarrow> bool \<Rightarrow> 'w \<Rightarrow> 'x batch list \<Rightarrow> nat list list" where
  "batch_predictions L training model [] = []"
| "batch_predictions L training model ((data, target) # bs) =
     (let (output, model1) = forward L training model data
      in argmax1 L output # batch_predictions L training model1 bs)"

definition spec_y_pred :: "('w, 'o, 'x, 'out) torch \<Rightarrow> bool \<Rightarrow> 'w \<Rightarrow> 'x batch list \<Rightarrow> nat list" where
  "spec_y_pred L training model loader = concat (batch_predictions L training model loader)"

definition spec_y_true :: "'x batch list \<Rightarrow> nat list" where
  "spec_y_true loader = concat (map snd loader)"

section \<open>Small instances\<close>

text \<open>
  A model whose state is a counter: a training step adds one, a forward pass adds the
  counter to every input of the batch (one output row per input), the prediction is the
  parity of the row, and the criterion reads the loss off a table \<open>loss_of\<close> at the first
  row. The first input of every batch below is 0, so the loss of a batch is the table at
  the counter. It serves to run the definitions on concrete inputs.
\<close>

definition demo_lib :: "(nat \<Rightarrow> pyfloat) \<Rightarrow> (nat, nat, nat list, nat list) torch" where
  "demo_lib loss_of =
     \<lparr>forward = (\<lambda>training w xs. (map (\<lambda>x. w + x) xs, w)),
      criterion = (\<lambda>out labels. case out of [] \<Rightarrow> NaN | k # ks \<Rightarrow> loss_of k),
      backward_step = (\<lambda>w opt xs labels. (w + 1, opt + 1)),
      argmax1 = map (\<lambda>k. k mod 2)\<rparr>"

definition demo_args :: "(nat \<Rightarrow> pyfloat) \<Rightarrow> int \<Rightarrow> (nat, nat, nat list, nat list) tv_args" where
  "demo_args loss_of p =
     \<lparr>lib = demo_lib loss_of, train_loader = (\<lambda>epoch. [([0, 1], [1, 0])]),
      val_loader = (\<lambda>epoch. [([0, 1], [1, 1])]), patience = p\<rparr>"

text \<open>Validation loss 1 with the weights of the first epoch, 3 afterwards.\<close>

definition demo_loss :: "nat \<Rightarrow> pyfloat" where
  "demo_loss w = (if w = 1 then Fin 1 else Fin 3)"

text \<open>Two criteria that never return a finite loss.\<close>

definition inf_loss :: "nat \<Rightarrow> pyfloat" where
  "inf_loss w = PosInf"

definition nan_loss :: "nat \<Rightarrow> pyfloat" where
  "nan_loss w = NaN"

text \<open>A loader of two batches, of two samples and of one.\<close>

definition demo_loader :: "nat list batch list" where
  "demo_loader = [([0, 1], [0, 0]), ([0], [1])]"

text \<open>Two small networks to run \<^verbatim>\<open>initialise_model\<close> on.\<close>

definition demo_tv :: "nat torchvision" where
  "demo_tv =
     \<lparr>resnet50 = (\<lambda>pretrained.
        \<lparr>backbone = [\<lparr>p_value = 11, requires_grad = True\<rparr>, \<lparr>p_value = 12, requires_grad = True\<rparr>],
         head = \<lparr>in_features = 2048, out_features = 1000,
                 weight = \<lparr>p_value = 13, requires_grad = True\<rparr>,
                 bias = \<lparr>p_value = 14, requires_grad = True\<rparr>\<rparr>\<rparr>),
      densenet121 = (\<lambda>pretrained.
        \<lparr>backbone = [\<lparr>p_value = 21, requires_grad = True\<rparr>],
         head = \<lparr>in_features = 1024, out_features = 1000,
                 weight = \<lparr>p_value = 23, requires_grad = True\<rparr>,
                 bias = \<lparr>p_value = 24, requires_grad = True\<rparr>\<rparr>\<rparr>),
      linear_init = (\<lambda>n k. (0, 0))\<rparr>"

text \<open>
  Loaders on which the passes do not behave: a batch with no sample, a batch of three
  labels for which the model returns two predictions, and a batch of one label for which it
  returns three.
\<close>

definition demo_no_sample :: "nat list batch list" where
  "demo_no_sample = [([], [])]"

definition demo_short :: "nat list batch list" where
  "demo_short = [([0, 1], [0, 1, 2])]"

definition demo_one_label :: "nat list batch list" where
  "demo_one_label = [([0, 2, 4], [0])]"

text \<open>The arguments of the small instance with a training loader that yields nothing.\<close>

definition demo_no_train :: "int \<Rightarrow> (nat, nat, nat list, nat list) tv_args" where
  "demo_no_train p = (demo_args demo_loss p)\<lparr>train_loader := (\<lambda>epoch. [])\<rparr>"

text \<open>A report text, and a loader in whose labels all seven classes occur.\<close>

definition demo_text :: "nat list \<Rightarrow> nat list \<Rightarrow> string list \<Rightarrow> string" where
  "demo_text y_true y_pred names = ''report''"

definition demo_seven :: "nat list batch list" where
  "demo_seven = [([0, 1, 2, 3], [0, 1, 2, 3]), ([0, 1, 2], [4, 5, 6])]"

section \<open>Lemmas on the epoch loop\<close>

lemmas tv_eval =
  train_and_validate_model_def load_best_def epoch_body_def run_passes_def checkpoint_decision_def
  record_iteration_def tv_init_def train_epoch_def validate_epoch_def test_model_def eq_sum_def
  broadcastable_def eq_count_def demo_no_train_def
  fdiv_len_def percent_def demo_args_def demo_lib_def demo_loss_def

lemma fgt_irrefl: "\<not> fgt x x"
  by (cases x) auto

lemma fgt_trans: "fgt a b \<Longrightarrow> fgt b c \<Longrightarrow> fgt a c"
  by (cases a; cases b; cases c) auto

lemma fgt_NaN_right: "\<not> fgt x NaN"
  by (cases x) auto

lemma run_passes_cases:
  assumes "run_passes A e s = Inr s1"
  shows "(\<not> stopping_ct s < patience A \<and> s1 = s) \<or>
         (stopping_ct s < patience A \<and>
          (\<exists>tl ta m1 o1 vl va m2.
             train_epoch (lib A) (tv_model s) (tv_opt s) (train_loader A e) = Inr (tl, ta, m1, o1) \<and>
             validate_epoch (lib A) m1 (val_loader A e) = Inr (vl, va, m2) \<and>
             s1 = s\<lparr>tv_model := m2, tv_opt := o1, valid_loss := Some vl,
                    total_loss_train := total_loss_train s @ [tl],
                    total_loss_val := total_loss_val s @ [vl],
                    total_acc_train := total_acc_train s @ [ta],
                    total_acc_val := total_acc_val s @ [va]\<rparr>))"
  using assms unfolding run_passes_def
  by (auto split: if_splits sum.splits)

lemma epoch_body_step:
  assumes "epoch_body A e s = Inr s'"
  shows "\<exists>h v. history s' = history s @ [h] \<and> valid_loss s' = Some v \<and> it_valid h = Some v
     \<and> it_epoch h = e \<and> it_ct_in h = stopping_ct s \<and> it_ct_out h = stopping_ct s'
     \<and> it_model h = tv_model s' \<and> it_min_in h = min_valid_loss s
     \<and> it_ran h = (stopping_ct s < patience A)
     \<and> it_saved h = fgt (min_valid_loss s) v
     \<and> (if stopping_ct s < patience A
         then total_loss_val s' = total_loss_val s @ [v]
         else total_loss_val s' = total_loss_val s \<and> valid_loss s = Some v
              \<and> tv_model s' = tv_model s \<and> tv_opt s' = tv_opt s
              \<and> total_loss_train s' = total_loss_train s
              \<and> total_acc_train s' = total_acc_train s
              \<and> total_acc_val s' = total_acc_val s)
     \<and> (if fgt (min_valid_loss s) v
         then min_valid_loss s' = v \<and> checkpoint s' = Some (tv_model s')
              \<and> stopping_ct s' = 0 \<and> saves s' = saves s + 1
         else min_valid_loss s' = min_valid_loss s \<and> checkpoint s' = checkpoint s
              \<and> stopping_ct s' = stopping_ct s + 1 \<and> saves s' = saves s)"
proof -
  from assms obtain s1 s2 where
    rp: "run_passes A e s = Inr s1" and cd: "checkpoint_decision s1 = Inr s2"
    and s': "s' = s2\<lparr>history := history s2 @ [record_iteration e s s1 s2]\<rparr>"
    unfolding epoch_body_def by (auto split: sum.splits)
  from cd obtain v where v: "valid_loss s1 = Some v"
    and s2: "s2 = (if fgt (min_valid_loss s1) v
                   then s1\<lparr>min_valid_loss := v, checkpoint := Some (tv_model s1),
                           saves := saves s1 + 1, stopping_ct := 0\<rparr>
                   else s1\<lparr>stopping_ct := stopping_ct s1 + 1\<rparr>)"
    unfolding checkpoint_decision_def by (auto split: option.splits if_splits)
  from run_passes_cases[OF rp] show ?thesis
  proof
    assume "\<not> stopping_ct s < patience A \<and> s1 = s"
    with v s2 s' show ?thesis
      by (auto simp: record_iteration_def)
  next
    assume "stopping_ct s < patience A \<and>
          (\<exists>tl ta m1 o1 vl va m2.
             train_epoch (lib A) (tv_model s) (tv_opt s) (train_loader A e) = Inr (tl, ta, m1, o1) \<and>
             validate_epoch (lib A) m1 (val_loader A e) = Inr (vl, va, m2) \<and>
             s1 = s\<lparr>tv_model := m2, tv_opt := o1, valid_loss := Some vl,
                    total_loss_train := total_loss_train s @ [tl],
                    total_loss_val := total_loss_val s @ [vl],
                    total_acc_train := total_acc_train s @ [ta],
                    total_acc_val := total_acc_val s @ [va]\<rparr>)"
    with v s2 s' show ?thesis
      by (auto simp: record_iteration_def)
  qed
qed


lemma tv_inv_init: "tv_inv (tv_init model opt file0)"
  by (simp add: tv_inv_def tv_init_def)

lemma tv_inv_step:
  assumes inv: "tv_inv s" and body: "epoch_body A e s = Inr s'"
  shows "tv_inv s'"
proof -
  from epoch_body_step[OF body] obtain h v where
    H: "history s' = history s @ [h]" and V: "valid_loss s' = Some v"
    and hv: "it_valid h = Some v" and hm: "it_model h = tv_model s'"
    and hran: "it_ran h = (stopping_ct s < patience A)"
    and hsaved: "it_saved h = fgt (min_valid_loss s) v"
    and ran: "if stopping_ct s < patience A
         then total_loss_val s' = total_loss_val s @ [v]
         else total_loss_val s' = total_loss_val s \<and> valid_loss s = Some v
              \<and> tv_model s' = tv_model s \<and> tv_opt s' = tv_opt s
              \<and> total_loss_train s' = total_loss_train s
              \<and> total_acc_train s' = total_acc_train s
              \<and> total_acc_val s' = total_acc_val s"
    and dec: "if fgt (min_valid_loss s) v
         then min_valid_loss s' = v \<and> checkpoint s' = Some (tv_model s')
              \<and> stopping_ct s' = 0 \<and> saves s' = saves s + 1
         else min_valid_loss s' = min_valid_loss s \<and> checkpoint s' = checkpoint s
              \<and> stopping_ct s' = stopping_ct s + 1 \<and> saves s' = saves s"
    by blast
  from inv have i1: "\<And>u. valid_loss s = Some u \<Longrightarrow> u \<in> set (total_loss_val s) \<and> \<not> fgt (min_valid_loss s) u"
    and i2: "\<And>u. u \<in> set (total_loss_val s) \<Longrightarrow> \<not> fgt (min_valid_loss s) u"
    and i3: "\<And>g. g \<in> set (history s) \<Longrightarrow> \<exists>u. it_valid g = Some u \<and> u \<in> set (total_loss_val s)"
    by (auto simp: tv_inv_def)
  have sub: "set (total_loss_val s) \<subseteq> set (total_loss_val s')"
    using ran by (auto split: if_splits)
  have p1: "v \<in> set (total_loss_val s')"
    using ran i1 by (auto split: if_splits)
  have setv: "set (total_loss_val s') \<subseteq> insert v (set (total_loss_val s))"
    using ran by (auto split: if_splits)
  have skip_nosave: "\<not> stopping_ct s < patience A \<Longrightarrow> \<not> fgt (min_valid_loss s) v"
    using ran i1 by (auto split: if_splits)
  have p4: "\<not> fgt (min_valid_loss s') u" if "u \<in> set (total_loss_val s')" for u
  proof (cases "fgt (min_valid_loss s) v")
    case True
    then have m: "min_valid_loss s' = v" using dec by simp
    from that setv have "u = v \<or> u \<in> set (total_loss_val s)" by auto
    then show ?thesis
    proof
      assume "u = v" then show ?thesis using m fgt_irrefl by simp
    next
      assume "u \<in> set (total_loss_val s)"
      then have "\<not> fgt (min_valid_loss s) u" by (rule i2)
      then show ?thesis using True m fgt_trans by blast
    qed
  next
    case False
    then have m: "min_valid_loss s' = min_valid_loss s" using dec by simp
    from that setv have "u = v \<or> u \<in> set (total_loss_val s)" by auto
    then show ?thesis using False m i2 by auto
  qed
  have p5: "\<exists>u. it_valid g = Some u \<and> u \<in> set (total_loss_val s')" if "g \<in> set (history s')" for g
  proof -
    from that H have "g = h \<or> g \<in> set (history s)" by auto
    then show ?thesis using hv p1 i3 sub by blast
  qed
  have p6: "if saves s' = 0
       then min_valid_loss s' = PosInf \<and> (\<forall>h\<in>set (history s'). \<not> it_saved h)
       else \<exists>i<length (history s').
              it_saved (history s' ! i) \<and> it_ran (history s' ! i)
            \<and> it_valid (history s' ! i) = Some (min_valid_loss s')
            \<and> checkpoint s' = Some (it_model (history s' ! i))
            \<and> (\<forall>j<i. it_valid (history s' ! j) \<noteq> Some (min_valid_loss s'))
            \<and> (\<forall>j<length (history s'). i < j \<longrightarrow> \<not> it_saved (history s' ! j))"
  proof (cases "fgt (min_valid_loss s) v")
    case True
    then have m: "min_valid_loss s' = v" and c: "checkpoint s' = Some (tv_model s')"
      and sv: "saves s' = saves s + 1" using dec by simp_all
    have r: "it_ran h" using hran skip_nosave True by blast
    have early: "it_valid (history s' ! j) \<noteq> Some v" if "j < length (history s)" for j
    proof
      assume eq: "it_valid (history s' ! j) = Some v"
      from that have "history s' ! j = history s ! j" using H by (simp add: nth_append)
      moreover from that have "history s ! j \<in> set (history s)" by simp
      ultimately obtain u where "it_valid (history s' ! j) = Some u" "u \<in> set (total_loss_val s)"
        using i3 by fastforce
      with eq have "v \<in> set (total_loss_val s)" by simp
      then show False using i2 True by blast
    qed
    have "length (history s) < length (history s')" using H by simp
    moreover have "history s' ! length (history s) = h" using H by simp
    moreover have "\<forall>j<length (history s'). length (history s) < j \<longrightarrow> \<not> it_saved (history s' ! j)"
      using H by simp
    ultimately show ?thesis
      using sv m c r hv hm hsaved True early by auto
  next
    case False
    then have m: "min_valid_loss s' = min_valid_loss s" and c: "checkpoint s' = checkpoint s"
      and sv: "saves s' = saves s" using dec by simp_all
    have hn: "\<not> it_saved h" using hsaved False by simp
    show ?thesis
    proof (cases "saves s = 0")
      case True
      with inv have "min_valid_loss s = PosInf" "\<forall>g\<in>set (history s). \<not> it_saved g"
        by (auto simp: tv_inv_def)
      with True sv m hn H show ?thesis by auto
    next
      case nz: False
      with inv obtain i where i: "i < length (history s)"
        "it_saved (history s ! i)" "it_ran (history s ! i)"
        "it_valid (history s ! i) = Some (min_valid_loss s)"
        "checkpoint s = Some (it_model (history s ! i))"
        "\<forall>j<i. it_valid (history s ! j) \<noteq> Some (min_valid_loss s)"
        "\<forall>j<length (history s). i < j \<longrightarrow> \<not> it_saved (history s ! j)"
        by (auto simp: tv_inv_def)
      have old: "history s' ! j = history s ! j" if "j < length (history s)" for j
        using that H by (simp add: nth_append)
      have later: "\<not> it_saved (history s' ! j)" if "j < length (history s')" "i < j" for j
      proof (cases "j < length (history s)")
        case True
        then show ?thesis using old i(7) that by simp
      next
        case False
        with that H have "j = length (history s)" by simp
        then show ?thesis using H hn by simp
      qed
      have "i < length (history s')" using i(1) H by simp
      moreover have "\<forall>j<i. it_valid (history s' ! j) \<noteq> Some (min_valid_loss s')"
        using i(1) i(6) old m by simp
      ultimately show ?thesis
        using nz sv m c i old later by auto
    qed
  qed
  show ?thesis
    unfolding tv_inv_def using V p1 p4 p5 p6 by auto
qed

lemma epoch_loop_append:
  "epoch_loop A (xs @ ys) s =
     (case epoch_loop A xs s of Inl e \<Rightarrow> Inl e | Inr s' \<Rightarrow> epoch_loop A ys s')"
  by (induction xs arbitrary: s) (auto split: sum.splits)

lemma tv_inv_loop: "tv_inv s \<Longrightarrow> epoch_loop A es s = Inr s' \<Longrightarrow> tv_inv s'"
proof (induction es arbitrary: s)
  case Nil
  then show ?case by simp
next
  case (Cons e es)
  then show ?case by (auto split: sum.splits dest: tv_inv_step)
qed

lemma epoch_body_history:
  assumes "epoch_body A e s = Inr s'"
  shows "\<exists>h. history s' = history s @ [h] \<and> it_epoch h = e \<and> iteration_ok A h
           \<and> total_loss_val s' = total_loss_val s @ map (the \<circ> it_valid) (filter it_ran [h])
           \<and> saves s \<le> saves s'"
proof -
  from epoch_body_step[OF assms] obtain h v where
    H: "history s' = history s @ [h]" and hv: "it_valid h = Some v" and he: "it_epoch h = e"
    and hin: "it_ct_in h = stopping_ct s" and hout: "it_ct_out h = stopping_ct s'"
    and hmin: "it_min_in h = min_valid_loss s"
    and hran: "it_ran h = (stopping_ct s < patience A)"
    and hsaved: "it_saved h = fgt (min_valid_loss s) v"
    and ran: "if stopping_ct s < patience A
         then total_loss_val s' = total_loss_val s @ [v]
         else total_loss_val s' = total_loss_val s \<and> valid_loss s = Some v
              \<and> tv_model s' = tv_model s \<and> tv_opt s' = tv_opt s
              \<and> total_loss_train s' = total_loss_train s
              \<and> total_acc_train s' = total_acc_train s
              \<and> total_acc_val s' = total_acc_val s"
    and dec: "if fgt (min_valid_loss s) v
         then min_valid_loss s' = v \<and> checkpoint s' = Some (tv_model s')
              \<and> stopping_ct s' = 0 \<and> saves s' = saves s + 1
         else min_valid_loss s' = min_valid_loss s \<and> checkpoint s' = checkpoint s
              \<and> stopping_ct s' = stopping_ct s + 1 \<and> saves s' = saves s"
    by blast
  have ok: "iteration_ok A h"
    using hv hin hout hmin hran hsaved dec
    by (cases "fgt (min_valid_loss s) v") (simp_all add: iteration_ok_def)
  have tl: "total_loss_val s' = total_loss_val s @ map (the \<circ> it_valid) (filter it_ran [h])"
    using ran hran hv by (cases "stopping_ct s < patience A") simp_all
  have sv: "saves s \<le> saves s'"
    using dec by (cases "fgt (min_valid_loss s) v") simp_all
  from H he ok tl sv show ?thesis by blast
qed

lemma epoch_loop_history:
  "epoch_loop A es s = Inr s' \<Longrightarrow>
   \<exists>hs. history s' = history s @ hs \<and> map it_epoch hs = es \<and> (\<forall>h\<in>set hs. iteration_ok A h)
        \<and> total_loss_val s' = total_loss_val s @ map (the \<circ> it_valid) (filter it_ran hs)
        \<and> saves s \<le> saves s'"
proof (induction es arbitrary: s)
  case Nil
  then show ?case by simp
next
  case (Cons e es)
  then obtain s1 where b: "epoch_body A e s = Inr s1" and l: "epoch_loop A es s1 = Inr s'"
    by (auto split: sum.splits)
  from epoch_body_history[OF b] obtain h where
    h: "history s1 = history s @ [h]" "it_epoch h = e" "iteration_ok A h"
       "total_loss_val s1 = total_loss_val s @ map (the \<circ> it_valid) (filter it_ran [h])"
       "saves s \<le> saves s1"
    by blast
  from Cons.IH[OF l] obtain hs where
    hs: "history s' = history s1 @ hs" "map it_epoch hs = es" "\<forall>h\<in>set hs. iteration_ok A h"
        "total_loss_val s' = total_loss_val s1 @ map (the \<circ> it_valid) (filter it_ran hs)"
        "saves s1 \<le> saves s'"
    by blast
  show ?case
    by (rule exI[of _ "h # hs"]) (use h hs in auto)
qed

lemma idle_loop:
  assumes v: "valid_loss s = Some v" and nf: "\<not> fgt (min_valid_loss s) v"
    and p: "patience A \<le> stopping_ct s"
  shows "epoch_loop A [k..<k + n] s =
           Inr (s\<lparr>stopping_ct := stopping_ct s + int n,
                  history := history s @ map (\<lambda>j. idle_iteration s j (k + j)) [0..<n]\<rparr>)"
proof (induction n)
  case 0
  show ?case by simp
next
  case (Suc n)
  let ?s = "s\<lparr>stopping_ct := stopping_ct s + int n,
                  history := history s @ map (\<lambda>j. idle_iteration s j (k + j)) [0..<n]\<rparr>"
  have "epoch_body A (k + n) ?s =
          Inr (s\<lparr>stopping_ct := stopping_ct s + int (Suc n),
                  history := history s @ map (\<lambda>j. idle_iteration s j (k + j)) [0..<Suc n]\<rparr>)"
    using v nf p
    by (simp add: epoch_body_def run_passes_def checkpoint_decision_def record_iteration_def
        idle_iteration_def)
  moreover have "[k..<k + Suc n] = [k..<k + n] @ [k + n]" by simp
  ultimately show ?case
    using Suc by (simp only: epoch_loop_append) simp
qed

lemma epoch_body_bound:
  assumes "epoch_body A e s = Inr s'"
  shows "\<exists>v. valid_loss s' = Some v \<and> \<not> fgt (min_valid_loss s') v"
  using epoch_body_step[OF assms] fgt_irrefl
  by (auto split: if_splits)

lemma epoch_loop_bound:
  assumes "epoch_loop A es s = Inr s'" and "es \<noteq> []"
  shows "\<exists>v. valid_loss s' = Some v \<and> \<not> fgt (min_valid_loss s') v"
proof -
  from assms(2) obtain xs x where es: "es = xs @ [x]" by (metis rev_exhaust)
  with assms(1) obtain s1 where "epoch_body A x s1 = Inr s'"
    by (auto simp: epoch_loop_append split: sum.splits)
  then show ?thesis by (rule epoch_body_bound)
qed

lemma epoch_loop_fail:
  "epoch_loop A es s = Inl e \<Longrightarrow>
   \<exists>xs x ys s'. es = xs @ x # ys \<and> epoch_loop A xs s = Inr s' \<and> epoch_body A x s' = Inl e"
proof (induction es arbitrary: s)
  case Nil
  then show ?case by simp
next
  case (Cons a es)
  show ?case
  proof (cases "epoch_body A a s")
    case (Inl e')
    with Cons.prems have "e' = e" by simp
    with Inl have "a # es = [] @ a # es \<and> epoch_loop A [] s = Inr s \<and> epoch_body A a s = Inl e"
      by simp
    then show ?thesis by blast
  next
    case (Inr s1)
    with Cons.prems have "epoch_loop A es s1 = Inl e" by simp
    from Cons.IH[OF this] obtain xs x ys s' where
      "es = xs @ x # ys" "epoch_loop A xs s1 = Inr s'" "epoch_body A x s' = Inl e" by blast
    with Inr have "a # es = (a # xs) @ x # ys \<and> epoch_loop A (a # xs) s = Inr s'
        \<and> epoch_body A x s' = Inl e"
      by simp
    then show ?thesis by blast
  qed
qed

lemma epoch_body_fail:
  assumes "epoch_body A x s = Inl e"
  shows "(stopping_ct s < patience A \<and> run_passes A x s = Inl e)
       \<or> (\<not> stopping_ct s < patience A \<and> valid_loss s = None \<and> e = UnboundLocalError)"
proof (cases "run_passes A x s")
  case (Inl e')
  with assms have "e' = e" by (simp add: epoch_body_def)
  moreover from Inl have "stopping_ct s < patience A"
    by (auto simp: run_passes_def split: if_splits)
  ultimately show ?thesis using Inl by simp
next
  case (Inr s1)
  with assms have cd: "checkpoint_decision s1 = Inl e"
    by (auto simp: epoch_body_def split: sum.splits)
  then have none: "valid_loss s1 = None" and e: "e = UnboundLocalError"
    by (auto simp: checkpoint_decision_def split: option.splits if_splits)
  from run_passes_cases[OF Inr] none have "\<not> stopping_ct s < patience A \<and> s1 = s"
    by auto
  with none e show ?thesis by simp
qed

lemma run_passes_fail:
  assumes "run_passes A x s = Inl e"
  shows "train_epoch (lib A) (tv_model s) (tv_opt s) (train_loader A x) = Inl e
       \<or> (\<exists>tloss tacc m1 o1.
             train_epoch (lib A) (tv_model s) (tv_opt s) (train_loader A x)
               = Inr (tloss, tacc, m1, o1)
           \<and> validate_epoch (lib A) m1 (val_loader A x) = Inl e)"
  using assms unfolding run_passes_def
  by (auto split: if_splits sum.splits)

section \<open>Theorems on \<^verbatim>\<open>train_and_validate_model\<close>\<close>

text \<open>
  C2, as amended. With \<open>patience \<ge> 1\<close>, the epoch loop is left before the last epoch of
  \<^verbatim>\<open>range(epochs)\<close> in one way only: a pass raises, in an iteration whose guard
  \<^verbatim>\<open>stopping_ct < patience\<close> held, and the call ends with that exception. Otherwise the
  loop iterates once for every epoch, in order, whatever the patience counter did: an
  iteration calls the two passes exactly when the guard held at its start, and the metric
  lists have one entry per iteration that ran the passes. An exhausted patience budget
  skips the passes and never shortens the loop.
\<close>

theorem tv_runs_every_epoch:
  assumes pat: "1 \<le> patience A"
  shows "(\<exists>s. epoch_loop A [0..<nat epochs] (tv_init model opt file0) = Inr s
            \<and> train_and_validate_model A model opt epochs file0 = load_best s
            \<and> map it_epoch (history s) = [0..<nat epochs]
            \<and> (\<forall>h\<in>set (history s). it_ran h \<longleftrightarrow> it_ct_in h < patience A)
            \<and> length (total_loss_val s) = length (filter it_ran (history s)))
       \<or> (\<exists>finished epoch rest s e.
              [0..<nat epochs] = finished @ epoch # rest
            \<and> epoch_loop A finished (tv_init model opt file0) = Inr s
            \<and> stopping_ct s < patience A
            \<and> run_passes A epoch s = Inl e
            \<and> train_and_validate_model A model opt epochs file0 = Inl e)"
proof (cases "epoch_loop A [0..<nat epochs] (tv_init model opt file0)")
  case (Inr s)
  from epoch_loop_history[OF Inr] obtain hs where
    hs: "history s = history (tv_init model opt file0) @ hs" "map it_epoch hs = [0..<nat epochs]"
        "\<forall>h\<in>set hs. iteration_ok A h"
        "total_loss_val s =
           total_loss_val (tv_init model opt file0) @ map (the \<circ> it_valid) (filter it_ran hs)"
    by blast
  from hs(1) have h: "history s = hs" by (simp add: tv_init_def)
  from hs(4) have l: "total_loss_val s = map (the \<circ> it_valid) (filter it_ran hs)"
    by (simp add: tv_init_def)
  have "train_and_validate_model A model opt epochs file0 = load_best s"
    using Inr by (simp add: train_and_validate_model_def)
  with Inr h l hs(2) hs(3) show ?thesis by (simp add: iteration_ok_def)
next
  case (Inl e)
  from epoch_loop_fail[OF Inl] obtain xs x ys s where
    split: "[0..<nat epochs] = xs @ x # ys"
    and pre: "epoch_loop A xs (tv_init model opt file0) = Inr s"
    and body: "epoch_body A x s = Inl e"
    by blast
  have bound: "valid_loss s = None \<Longrightarrow> stopping_ct s = 0"
  proof (cases "xs = []")
    case True
    with pre have "s = tv_init model opt file0" by simp
    then show ?thesis by (simp add: tv_init_def)
  next
    case False
    from epoch_loop_bound[OF pre False] show "valid_loss s = None \<Longrightarrow> stopping_ct s = 0"
      by auto
  qed
  from epoch_body_fail[OF body] bound pat
  have "stopping_ct s < patience A \<and> run_passes A x s = Inl e" by auto
  moreover have "train_and_validate_model A model opt epochs file0 = Inl e"
    using Inl by (simp add: train_and_validate_model_def)
  ultimately show ?thesis using split pre by blast
qed

theorem tv_runs_every_epoch_witness:
  "1 \<le> patience (demo_args demo_loss 1)
   \<and> epoch_loop (demo_args demo_loss 1) [0..<nat 4] (tv_init 0 0 None)
     = Inr (projr (epoch_loop (demo_args demo_loss 1) [0..<nat 4] (tv_init 0 0 None)))
   \<and> map it_epoch (history (projr (epoch_loop (demo_args demo_loss 1) [0..<nat 4] (tv_init 0 0 None))))
       = [0, 1, 2, 3]
   \<and> map it_ran (history (projr (epoch_loop (demo_args demo_loss 1) [0..<nat 4] (tv_init 0 0 None))))
       = [True, True, False, False]
   \<and> total_loss_val (projr (epoch_loop (demo_args demo_loss 1) [0..<nat 4] (tv_init 0 0 None)))
       = [Fin 1, Fin 3]"
proof -
  have up: "[0..<nat 4] = [0, 1, 2, 3]" by (simp add: upt_rec)
  have pat: "1 \<le> patience (demo_args demo_loss 1)" by (simp add: demo_args_def)
  have run: "epoch_loop (demo_args demo_loss 1) [0..<nat 4] (tv_init 0 0 None)
     = Inr (projr (epoch_loop (demo_args demo_loss 1) [0..<nat 4] (tv_init 0 0 None)))"
    unfolding up by (simp add: tv_eval)
  have nofail: "isl (train_and_validate_model (demo_args demo_loss 1) 0 0 4 None) = False"
    unfolding train_and_validate_model_def up by (simp add: tv_eval)
  from tv_runs_every_epoch[OF pat, of 4 0 0 None] run nofail
  have "map it_epoch (history (projr (epoch_loop (demo_args demo_loss 1) [0..<nat 4]
          (tv_init 0 0 None)))) = [0..<nat 4]"
    by auto
  moreover have "map it_ran
       (history (projr (epoch_loop (demo_args demo_loss 1) [0..<nat 4] (tv_init 0 0 None))))
       = [True, True, False, False]"
    unfolding up by (simp add: tv_eval)
  moreover have
    "total_loss_val (projr (epoch_loop (demo_args demo_loss 1) [0..<nat 4] (tv_init 0 0 None)))
       = [Fin 1, Fin 3]"
    unfolding up by (simp add: tv_eval)
  ultimately show ?thesis using pat run up by simp
qed

text \<open>
  The claim as stated fails when a pass raises: with two epochs, patience 1 and a training
  loader that yields no batch, the division by \<^verbatim>\<open>len(train_loader)\<close> raises in the first
  iteration, and the loop does not iterate twice.
\<close>

theorem tv_pass_raises_counterexample:
  "epoch_body (demo_no_train 1) 0 (tv_init 0 0 None) = Inl ZeroDivisionError
   \<and> epoch_loop (demo_no_train 1) [0, 1] (tv_init 0 0 None) = Inl ZeroDivisionError
   \<and> train_and_validate_model (demo_no_train 1) 0 0 2 None = Inl ZeroDivisionError"
proof -
  have up: "[0..<nat 2] = [0, 1]" by (simp add: upt_rec)
  show ?thesis
    unfolding train_and_validate_model_def up by (simp add: tv_eval)
qed

text \<open>
  C8. With \<open>patience \<ge> 1\<close>: when, after \<open>k\<close> epochs, \<^verbatim>\<open>stopping_ct\<close> has reached
  \<^verbatim>\<open>patience\<close>, each of the next \<open>n\<close> epochs still runs, and it only moves the counter up
  by one: the comparison \<^verbatim>\<open>min_valid_loss > valid_loss\<close> fails on the stale
  \<^verbatim>\<open>valid_loss\<close>, so the model, the optimizer, the metric lists, the file and the number
  of saves stay as they were, and every added history entry records no pass and no save.
\<close>

theorem tv_idle_after_patience:
  assumes pat: "1 \<le> patience A"
    and run: "epoch_loop A [0..<k] (tv_init model opt file0) = Inr s"
    and hit: "patience A \<le> stopping_ct s"
  shows "epoch_loop A [0..<k + n] (tv_init model opt file0) =
           Inr (s\<lparr>stopping_ct := stopping_ct s + int n,
                  history := history s @ map (\<lambda>j. idle_iteration s j (k + j)) [0..<n]\<rparr>)"
proof -
  have "k \<noteq> 0"
  proof
    assume "k = 0"
    with run have "s = tv_init model opt file0" by simp
    with pat hit show False by (simp add: tv_init_def)
  qed
  then have "[0..<k] \<noteq> []" by simp
  from epoch_loop_bound[OF run this] obtain v where
    v: "valid_loss s = Some v" "\<not> fgt (min_valid_loss s) v" by blast
  have "[0..<k + n] = [0..<k] @ [k..<k + n]"
    by (metis upt_add_eq_append zero_le)
  then show ?thesis
    using run idle_loop[OF v hit, of k n] by (simp add: epoch_loop_append)
qed

theorem tv_idle_after_patience_witness:
  "1 \<le> patience (demo_args demo_loss 1)
   \<and> epoch_loop (demo_args demo_loss 1) [0..<2] (tv_init 0 0 None)
       = Inr (projr (epoch_loop (demo_args demo_loss 1) [0..<2] (tv_init 0 0 None)))
   \<and> patience (demo_args demo_loss 1)
       \<le> stopping_ct (projr (epoch_loop (demo_args demo_loss 1) [0..<2] (tv_init 0 0 None)))
   \<and> stopping_ct (projr (epoch_loop (demo_args demo_loss 1) [0..<2 + 3] (tv_init 0 0 None))) = 4
   \<and> tv_model (projr (epoch_loop (demo_args demo_loss 1) [0..<2 + 3] (tv_init 0 0 None))) = 2
   \<and> map it_ran (history (projr (epoch_loop (demo_args demo_loss 1) [0..<2 + 3] (tv_init 0 0 None))))
       = [True, True, False, False, False]"
proof -
  have up: "[0..<2] = [0, 1]" "[0..<3] = [0, 1, 2]" by (simp_all add: upt_rec)
  have pat: "1 \<le> patience (demo_args demo_loss 1)" by (simp add: demo_args_def)
  have run: "epoch_loop (demo_args demo_loss 1) [0..<2] (tv_init 0 0 None)
       = Inr (projr (epoch_loop (demo_args demo_loss 1) [0..<2] (tv_init 0 0 None)))"
    unfolding up by (simp add: tv_eval)
  have ct: "stopping_ct (projr (epoch_loop (demo_args demo_loss 1) [0..<2] (tv_init 0 0 None))) = 1"
    unfolding up by (simp add: tv_eval)
  have m: "tv_model (projr (epoch_loop (demo_args demo_loss 1) [0..<2] (tv_init 0 0 None))) = 2"
    unfolding up by (simp add: tv_eval)
  have h: "map it_ran (history (projr (epoch_loop (demo_args demo_loss 1) [0..<2] (tv_init 0 0 None))))
       = [True, True]"
    unfolding up by (simp add: tv_eval)
  have hit: "patience (demo_args demo_loss 1)
       \<le> stopping_ct (projr (epoch_loop (demo_args demo_loss 1) [0..<2] (tv_init 0 0 None)))"
    using ct by (simp add: demo_args_def)
  from tv_idle_after_patience[OF pat run hit, of 3] pat run hit ct m h show ?thesis
    by (simp add: idle_iteration_def up)
qed

text \<open>
  C9. With \<open>epochs \<ge> 1\<close> and \<open>patience \<le> 0\<close> the guard of the first iteration is false,
  the comparison reads \<^verbatim>\<open>valid_loss\<close> before any assignment, and the call ends with
  UnboundLocalError, whatever the loaders and the library are: no pass is run.
\<close>

theorem tv_unbound_valid_loss:
  assumes "1 \<le> epochs" and "patience A \<le> 0"
  shows "train_and_validate_model A model opt epochs file0 = Inl UnboundLocalError"
proof -
  from assms(1) have "[0..<nat epochs] = 0 # [1..<nat epochs]"
    by (simp add: upt_conv_Cons)
  moreover have "epoch_body A 0 (tv_init model opt file0) = Inl UnboundLocalError"
    using assms(2)
    by (simp add: epoch_body_def run_passes_def checkpoint_decision_def tv_init_def)
  ultimately show ?thesis
    by (simp add: train_and_validate_model_def)
qed

theorem tv_unbound_valid_loss_witness:
  "(1::int) \<le> 1 \<and> patience (demo_args demo_loss 0) \<le> 0
   \<and> train_and_validate_model (demo_args demo_loss 0) 0 0 1 None = Inl UnboundLocalError"
proof -
  have e: "(1::int) \<le> 1" by simp
  have p: "patience (demo_args demo_loss 0) \<le> 0" by (simp add: demo_args_def)
  from tv_unbound_valid_loss[OF e p] e p show ?thesis by simp
qed

text \<open>
  C1, as amended. When the epoch loop completes, every iteration saved the model and reset
  the counter exactly when the validation loss it compared was strictly below
  \<^verbatim>\<open>min_valid_loss\<close>, and advanced the counter by one otherwise. If some validation loss
  of the run is below \<open>+\<infinity>\<close>, the call returns, and the file at \<^verbatim>\<open>model_filename\<close>
  (and the model returned) holds the weights as they were at the end of the first epoch
  whose validation loss is a minimum of the losses observed: no observed loss is strictly
  below it.
\<close>

theorem tv_checkpoint_is_best:
  assumes loop: "epoch_loop A [0..<nat epochs] (tv_init model opt file0) = Inr s"
  shows "(\<forall>h\<in>set (history s).
            (it_saved h \<longleftrightarrow> (\<exists>v. it_valid h = Some v \<and> fgt (it_min_in h) v))
          \<and> it_ct_out h = (if it_saved h then 0 else it_ct_in h + 1))
       \<and> ((\<exists>v\<in>set (total_loss_val s). fgt PosInf v) \<longrightarrow>
            (\<exists>i<length (history s). \<exists>m.
                it_ran (history s ! i) \<and> it_valid (history s ! i) = Some m
              \<and> m \<in> set (total_loss_val s)
              \<and> (\<forall>v\<in>set (total_loss_val s). \<not> fgt m v)
              \<and> (\<forall>j<i. it_valid (history s ! j) \<noteq> Some m)
              \<and> checkpoint s = Some (it_model (history s ! i))
              \<and> train_and_validate_model A model opt epochs file0
                  = Inr (s\<lparr>tv_model := it_model (history s ! i)\<rparr>)))"
proof -
  from epoch_loop_history[OF loop] obtain hs where
    hs: "history s = history (tv_init model opt file0) @ hs" "\<forall>h\<in>set hs. iteration_ok A h"
    by blast
  from hs(1) have h: "history s = hs" by (simp add: tv_init_def)
  have part2: "\<forall>h\<in>set (history s).
            (it_saved h \<longleftrightarrow> (\<exists>v. it_valid h = Some v \<and> fgt (it_min_in h) v))
          \<and> it_ct_out h = (if it_saved h then 0 else it_ct_in h + 1)"
    using hs(2) h by (simp add: iteration_ok_def)
  have inv: "tv_inv s"
    using tv_inv_init loop by (rule tv_inv_loop)
  have part1: "\<exists>i<length (history s). \<exists>m.
                it_ran (history s ! i) \<and> it_valid (history s ! i) = Some m
              \<and> m \<in> set (total_loss_val s)
              \<and> (\<forall>v\<in>set (total_loss_val s). \<not> fgt m v)
              \<and> (\<forall>j<i. it_valid (history s ! j) \<noteq> Some m)
              \<and> checkpoint s = Some (it_model (history s ! i))
              \<and> train_and_validate_model A model opt epochs file0
                  = Inr (s\<lparr>tv_model := it_model (history s ! i)\<rparr>)"
    if some: "\<exists>v\<in>set (total_loss_val s). fgt PosInf v"
  proof -
    from some obtain v where v: "v \<in> set (total_loss_val s)" "fgt PosInf v" by auto
    from inv have least: "\<forall>u\<in>set (total_loss_val s). \<not> fgt (min_valid_loss s) u"
      and known: "\<forall>g\<in>set (history s). \<exists>u. it_valid g = Some u \<and> u \<in> set (total_loss_val s)"
      by (simp_all add: tv_inv_def)
    have nz: "saves s \<noteq> 0"
    proof
      assume "saves s = 0"
      with inv have "min_valid_loss s = PosInf" by (simp add: tv_inv_def)
      with least v show False by auto
    qed
    with inv obtain i where i: "i < length (history s)"
        "it_ran (history s ! i)"
        "it_valid (history s ! i) = Some (min_valid_loss s)"
        "checkpoint s = Some (it_model (history s ! i))"
        "\<forall>j<i. it_valid (history s ! j) \<noteq> Some (min_valid_loss s)"
      by (auto simp: tv_inv_def)
    from i(1) have "history s ! i \<in> set (history s)" by simp
    with known i(3) have mem: "min_valid_loss s \<in> set (total_loss_val s)" by fastforce
    from loop i(4) have ret: "train_and_validate_model A model opt epochs file0
                  = Inr (s\<lparr>tv_model := it_model (history s ! i)\<rparr>)"
      by (simp add: train_and_validate_model_def load_best_def)
    from i mem least ret show ?thesis
      by (intro exI[of _ i] conjI exI[of _ "min_valid_loss s"]) simp_all
  qed
  from part2 part1 show ?thesis by blast
qed

theorem tv_checkpoint_is_best_witness:
  "epoch_loop (demo_args demo_loss 2) [0..<nat 3] (tv_init 0 0 None)
     = Inr (projr (epoch_loop (demo_args demo_loss 2) [0..<nat 3] (tv_init 0 0 None)))
   \<and> total_loss_val (projr (epoch_loop (demo_args demo_loss 2) [0..<nat 3] (tv_init 0 0 None)))
       = [Fin 1, Fin 3, Fin 3]
   \<and> fgt PosInf (Fin 1)
   \<and> map it_saved (history (projr (epoch_loop (demo_args demo_loss 2) [0..<nat 3] (tv_init 0 0 None))))
       = [True, False, False]
   \<and> map it_ct_out (history (projr (epoch_loop (demo_args demo_loss 2) [0..<nat 3] (tv_init 0 0 None))))
       = [0, 1, 2]
   \<and> map it_model (history (projr (epoch_loop (demo_args demo_loss 2) [0..<nat 3] (tv_init 0 0 None))))
       = [1, 2, 3]
   \<and> checkpoint (projr (epoch_loop (demo_args demo_loss 2) [0..<nat 3] (tv_init 0 0 None))) = Some 1
   \<and> tv_model (projr (train_and_validate_model (demo_args demo_loss 2) 0 0 3 None)) = 1"
proof -
  define S where "S = projr (epoch_loop (demo_args demo_loss 2) [0..<nat 3] (tv_init 0 0 None))"
  have up: "[0..<nat 3] = [0, 1, 2]" by (simp add: upt_rec)
  have run: "epoch_loop (demo_args demo_loss 2) [0..<nat 3] (tv_init 0 0 None) = Inr S"
    unfolding S_def up by (simp add: tv_eval)
  have vals: "total_loss_val S = [Fin 1, Fin 3, Fin 3]"
    unfolding S_def up by (simp add: tv_eval)
  have models: "map it_model (history S) = [1, 2, 3]"
    unfolding S_def up by (simp add: tv_eval)
  have valids: "map it_valid (history S) = [Some (Fin 1), Some (Fin 3), Some (Fin 3)]"
    unfolding S_def up by (simp add: tv_eval)
  have saved: "map it_saved (history S) = [True, False, False]"
    unfolding S_def up by (simp add: tv_eval)
  have cts: "map it_ct_out (history S) = [0, 1, 2]"
    unfolding S_def up by (simp add: tv_eval)
  have some: "\<exists>v\<in>set (total_loss_val S). fgt PosInf v"
    using vals by simp
  from tv_checkpoint_is_best[OF run] some obtain i m where
    i: "i < length (history S)"
    "it_valid (history S ! i) = Some m"
    "\<forall>v\<in>set (total_loss_val S). \<not> fgt m v"
    "checkpoint S = Some (it_model (history S ! i))"
    "train_and_validate_model (demo_args demo_loss 2) 0 0 3 None
       = Inr (S\<lparr>tv_model := it_model (history S ! i)\<rparr>)"
    by blast
  from i(3) vals have m1: "\<not> fgt m (Fin 1)" by simp
  from i(1) have len: "i < 3"
    using arg_cong[OF models, of length] by simp
  have nth_valid: "it_valid (history S ! i) = [Some (Fin 1), Some (Fin 3), Some (Fin 3)] ! i"
    using i(1) arg_cong[OF valids, of "\<lambda>xs. xs ! i"] by simp
  have nth_model: "it_model (history S ! i) = [1, 2, 3] ! i"
    using i(1) arg_cong[OF models, of "\<lambda>xs. xs ! i"] by simp
  have "i = 0"
  proof (rule ccontr)
    assume "i \<noteq> 0"
    with len have "i = 1 \<or> i = 2" by auto
    with nth_valid i(2) have "m = Fin 3" by auto
    with m1 show False by simp
  qed
  with nth_model i(4) i(5) run vals saved cts models show ?thesis
    unfolding S_def by simp
qed

text \<open>
  The claim as stated fails when no validation loss is below \<open>+\<infinity>\<close>: with a loss of
  \<open>+\<infinity>\<close> in the only epoch, the comparison \<^verbatim>\<open>inf > inf\<close> is false, nothing is saved, and
  the file still holds what it held before the call (here 99), not the weights of the epoch
  (here 1).
\<close>

theorem tv_checkpoint_stale_counterexample:
  "train_and_validate_model (demo_args inf_loss 1) 0 0 1 (Some 99)
     = Inr (projr (train_and_validate_model (demo_args inf_loss 1) 0 0 1 (Some 99)))
   \<and> total_loss_val (projr (train_and_validate_model (demo_args inf_loss 1) 0 0 1 (Some 99)))
       = [PosInf]
   \<and> map it_model (history (projr (train_and_validate_model (demo_args inf_loss 1) 0 0 1 (Some 99))))
       = [1]
   \<and> map it_saved (history (projr (train_and_validate_model (demo_args inf_loss 1) 0 0 1 (Some 99))))
       = [False]
   \<and> checkpoint (projr (train_and_validate_model (demo_args inf_loss 1) 0 0 1 (Some 99)))
       = Some 99"
proof -
  have up: "[0..<nat 1] = [0]" by simp
  show ?thesis
    unfolding train_and_validate_model_def up by (simp add: tv_eval inf_loss_def)
qed

text \<open>The first iteration when its two passes return and the validation loss is below
  \<open>+\<infinity>\<close>.\<close>

lemma first_epoch_saves:
  assumes pat: "1 \<le> patience A"
    and tr: "train_epoch (lib A) model opt (train_loader A 0) = Inr (tloss, tacc, m1, o1)"
    and va: "validate_epoch (lib A) m1 (val_loader A 0) = Inr (v, acc, m2)"
    and lt: "fgt PosInf v"
  shows "\<exists>s1. epoch_body A 0 (tv_init model opt file0) = Inr s1
           \<and> checkpoint s1 = Some m2 \<and> tv_model s1 = m2 \<and> saves s1 = 1
           \<and> (\<exists>h. history s1 = [h] \<and> it_saved h)"
  using assms
  by (simp add: epoch_body_def run_passes_def checkpoint_decision_def record_iteration_def
      tv_init_def)

text \<open>
  C10, as amended. With \<open>epochs \<ge> 1\<close> and \<open>patience \<ge> 1\<close>, if the two passes of the first
  epoch return and its validation loss is below \<open>+\<infinity>\<close>, the first epoch writes the
  model to the file; and whenever the epoch loop completes, the terminal load succeeds
  and reads weights that an iteration of this call saved.
\<close>

theorem tv_first_epoch_saves:
  assumes ep: "1 \<le> epochs" and pat: "1 \<le> patience A"
    and tr: "train_epoch (lib A) model opt (train_loader A 0) = Inr (tloss, tacc, m1, o1)"
    and va: "validate_epoch (lib A) m1 (val_loader A 0) = Inr (v, acc, m2)"
    and lt: "fgt PosInf v"
  shows "(\<exists>s1. epoch_body A 0 (tv_init model opt file0) = Inr s1
            \<and> checkpoint s1 = Some m2 \<and> tv_model s1 = m2 \<and> saves s1 = 1)
       \<and> (\<forall>s. epoch_loop A [0..<nat epochs] (tv_init model opt file0) = Inr s \<longrightarrow>
             it_saved (history s ! 0)
           \<and> (\<exists>i<length (history s).
                 it_saved (history s ! i)
               \<and> checkpoint s = Some (it_model (history s ! i))
               \<and> train_and_validate_model A model opt epochs file0
                   = Inr (s\<lparr>tv_model := it_model (history s ! i)\<rparr>)))"
proof -
  from first_epoch_saves[OF pat tr va lt, of file0] obtain s1 h where
    s1: "epoch_body A 0 (tv_init model opt file0) = Inr s1"
        "checkpoint s1 = Some m2" "tv_model s1 = m2" "saves s1 = 1"
        "history s1 = [h]" "it_saved h"
    by blast
  from ep have up: "[0..<nat epochs] = 0 # [1..<nat epochs]"
    by (simp add: upt_conv_Cons)
  have rest: "it_saved (history s ! 0)
           \<and> (\<exists>i<length (history s).
                 it_saved (history s ! i)
               \<and> checkpoint s = Some (it_model (history s ! i))
               \<and> train_and_validate_model A model opt epochs file0
                   = Inr (s\<lparr>tv_model := it_model (history s ! i)\<rparr>))"
    if loop: "epoch_loop A [0..<nat epochs] (tv_init model opt file0) = Inr s" for s
  proof -
    from loop up s1(1) have tail: "epoch_loop A [1..<nat epochs] s1 = Inr s" by simp
    from epoch_loop_history[OF tail] obtain hs where
      hs: "history s = history s1 @ hs" "saves s1 \<le> saves s" by blast
    from hs(1) s1(5) s1(6) have first: "it_saved (history s ! 0)" by simp
    have inv: "tv_inv s"
      using tv_inv_init loop by (rule tv_inv_loop)
    from hs(2) s1(4) have "saves s \<noteq> 0" by simp
    with inv obtain i where i: "i < length (history s)" "it_saved (history s ! i)"
        "checkpoint s = Some (it_model (history s ! i))"
      by (auto simp: tv_inv_def)
    from loop i(3) have "train_and_validate_model A model opt epochs file0
                   = Inr (s\<lparr>tv_model := it_model (history s ! i)\<rparr>)"
      by (simp add: train_and_validate_model_def load_best_def)
    with first i show ?thesis by blast
  qed
  from s1 rest show ?thesis by blast
qed

theorem tv_first_epoch_saves_witness:
  "(1::int) \<le> 3 \<and> 1 \<le> patience (demo_args demo_loss 2)
   \<and> train_epoch (lib (demo_args demo_loss 2)) 0 0 (train_loader (demo_args demo_loss 2) 0)
       = Inr (Fin 3, 0, 1, 1)
   \<and> validate_epoch (lib (demo_args demo_loss 2)) 1 (val_loader (demo_args demo_loss 2) 0)
       = Inr (Fin 1, 50, 1)
   \<and> fgt PosInf (Fin 1)
   \<and> epoch_loop (demo_args demo_loss 2) [0..<nat 3] (tv_init 0 0 None)
       = Inr (projr (epoch_loop (demo_args demo_loss 2) [0..<nat 3] (tv_init 0 0 None)))
   \<and> it_saved (history (projr (epoch_loop (demo_args demo_loss 2) [0..<nat 3] (tv_init 0 0 None))) ! 0)
   \<and> isl (train_and_validate_model (demo_args demo_loss 2) 0 0 3 None) = False"
proof -
  have up: "[0..<nat 3] = [0, 1, 2]" by (simp add: upt_rec)
  have ep: "(1::int) \<le> 3" by simp
  have pat: "1 \<le> patience (demo_args demo_loss 2)" by (simp add: demo_args_def)
  have tr: "train_epoch (lib (demo_args demo_loss 2)) 0 0 (train_loader (demo_args demo_loss 2) 0)
       = Inr (Fin 3, 0, 1, 1)"
    by (simp add: tv_eval)
  have va: "validate_epoch (lib (demo_args demo_loss 2)) 1 (val_loader (demo_args demo_loss 2) 0)
       = Inr (Fin 1, 50, 1)"
    by (simp add: tv_eval)
  have lt: "fgt PosInf (Fin 1)" by simp
  have loop: "epoch_loop (demo_args demo_loss 2) [0..<nat 3] (tv_init 0 0 None)
       = Inr (projr (epoch_loop (demo_args demo_loss 2) [0..<nat 3] (tv_init 0 0 None)))"
    unfolding up by (simp add: tv_eval)
  from tv_first_epoch_saves[OF ep pat tr va lt, of None] loop
  have "it_saved (history (projr (epoch_loop (demo_args demo_loss 2) [0..<nat 3] (tv_init 0 0 None))) ! 0)
    \<and> (\<exists>i. train_and_validate_model (demo_args demo_loss 2) 0 0 3 None
          = Inr ((projr (epoch_loop (demo_args demo_loss 2) [0..<nat 3] (tv_init 0 0 None)))
                  \<lparr>tv_model := it_model (history (projr (epoch_loop (demo_args demo_loss 2)
                       [0..<nat 3] (tv_init 0 0 None))) ! i)\<rparr>))"
    by blast
  with ep pat tr va lt loop show ?thesis by auto
qed

text \<open>
  The claim as stated fails when the first validation loss is not a number: nothing is
  saved, and with no file from an earlier call the terminal load raises.
\<close>

theorem tv_no_save_counterexample:
  "train_and_validate_model (demo_args nan_loss 1) 0 0 1 None = Inl FileNotFoundError
   \<and> epoch_loop (demo_args nan_loss 1) [0] (tv_init 0 0 None)
       = Inr (projr (epoch_loop (demo_args nan_loss 1) [0] (tv_init 0 0 None)))
   \<and> total_loss_val (projr (epoch_loop (demo_args nan_loss 1) [0] (tv_init 0 0 None))) = [NaN]
   \<and> saves (projr (epoch_loop (demo_args nan_loss 1) [0] (tv_init 0 0 None))) = 0
   \<and> checkpoint (projr (epoch_loop (demo_args nan_loss 1) [0] (tv_init 0 0 None))) = None"
proof -
  have up: "[0..<nat 1] = [0]" by simp
  show ?thesis
    unfolding train_and_validate_model_def up by (simp add: tv_eval nan_loss_def)
qed

section \<open>Theorems on the passes\<close>

lemma shapes_agree_Cons:
  "shapes_agree L ((data, labels) # bs) \<longleftrightarrow>
     (\<forall>training w. length (argmax1 L (fst (forward L training w data))) = length labels)
     \<and> shapes_agree L bs"
  by (auto simp: shapes_agree_def)

lemma shapes_broadcast_Cons:
  "shapes_broadcast L ((data, labels) # bs) \<longleftrightarrow>
     (\<forall>training w. broadcastable (argmax1 L (fst (forward L training w data))) labels)
     \<and> shapes_broadcast L bs"
  by (auto simp: shapes_broadcast_def)


lemma shapes_agree_broadcast: "shapes_agree L loader \<Longrightarrow> shapes_broadcast L loader"
  by (auto simp: shapes_agree_def shapes_broadcast_def broadcastable_def)

lemma shapes_agree_single_label: "shapes_agree L loader \<Longrightarrow> single_label_safe L loader"
  by (auto simp: shapes_agree_def single_label_safe_def)

lemma train_trace_sizes: "map batch_size (train_trace L model opt bs) = map (length \<circ> snd) bs"
  by (induction bs arbitrary: model opt) (auto simp: batch_size_def split: prod.splits)

lemma validate_trace_sizes: "map batch_size (validate_trace L model bs) = map (length \<circ> snd) bs"
  by (induction bs arbitrary: model) (auto simp: batch_size_def split: prod.splits)

lemma train_loop_trace:
  assumes "shapes_broadcast L bs"
  shows "\<exists>m' o'. train_loop L (m, opt, s, c, t) bs =
           Inr (m', o', foldl fadd s (map batch_loss (train_trace L m opt bs)),
                c + sum_list (map batch_correct (train_trace L m opt bs)),
                t + sum_list (map batch_size (train_trace L m opt bs)))"
  using assms
proof (induction bs arbitrary: m opt s c t)
  case Nil
  then show ?case by simp
next
  case (Cons b bs)
  obtain data labels where b: "b = (data, labels)" by (cases b)
  obtain outputs m1 where f: "forward L True m data = (outputs, m1)" by (cases "forward L True m data")
  obtain m2 o2 where g: "backward_step L m1 opt data labels = (m2, o2)"
    by (cases "backward_step L m1 opt data labels")
  from Cons.prems b have
    all: "\<forall>training w. broadcastable (argmax1 L (fst (forward L training w data))) labels"
    and rest: "shapes_broadcast L bs"
    by (simp_all add: shapes_broadcast_Cons)
  from all have "broadcastable (argmax1 L (fst (forward L True m data))) labels" by blast
  with f have len: "broadcastable (argmax1 L outputs) labels" by simp
  from Cons.IH[OF rest, of m2 o2 "fadd s (criterion L outputs labels)"
      "c + eq_count (argmax1 L outputs) labels" "t + length labels"]
  show ?case
    using b f g len
    by (simp add: eq_sum_def batch_loss_def batch_correct_def batch_size_def add.assoc)
qed

lemma validate_loop_trace:
  assumes "shapes_broadcast L bs"
  shows "\<exists>m'. validate_loop L (m, s, c, t) bs =
           Inr (m', foldl fadd s (map batch_loss (validate_trace L m bs)),
                c + sum_list (map batch_correct (validate_trace L m bs)),
                t + sum_list (map batch_size (validate_trace L m bs)))"
  using assms
proof (induction bs arbitrary: m s c t)
  case Nil
  then show ?case by simp
next
  case (Cons b bs)
  obtain data labels where b: "b = (data, labels)" by (cases b)
  obtain outputs m1 where f: "forward L False m data = (outputs, m1)" by (cases "forward L False m data")
  from Cons.prems b have
    all: "\<forall>training w. broadcastable (argmax1 L (fst (forward L training w data))) labels"
    and rest: "shapes_broadcast L bs"
    by (simp_all add: shapes_broadcast_Cons)
  from all have "broadcastable (argmax1 L (fst (forward L False m data))) labels" by blast
  with f have len: "broadcastable (argmax1 L outputs) labels" by simp
  from Cons.IH[OF rest, of m1 "fadd s (criterion L outputs labels)"
      "c + eq_count (argmax1 L outputs) labels" "t + length labels"]
  show ?case
    using b f len
    by (simp add: eq_sum_def batch_loss_def batch_correct_def batch_size_def add.assoc)
qed












text \<open>
  C3, as amended. On a loader that yields at least one sample and on whose batches the
  comparison of predictions and labels does not raise, \<^verbatim>\<open>train_epoch\<close> and
  \<^verbatim>\<open>validate_epoch\<close> return; the per-batch values they accumulate are those of every
  batch of the loader, once each and in order; the first result is the accumulated loss
  divided by the number of batches and the second is 100 times the accumulated correct
  count divided by the number of samples seen.
\<close>

theorem pass_returns_means:
  assumes wf: "shapes_broadcast L loader" and n: "0 < sum_list (map (length \<circ> snd) loader)"
  shows "(\<exists>m' o'. train_epoch L model opt loader =
            Inr (spec_mean_loss (map batch_loss (train_trace L model opt loader)) (length loader),
                 spec_accuracy (map batch_correct (train_trace L model opt loader))
                   (map batch_size (train_trace L model opt loader)), m', o'))
       \<and> map batch_size (train_trace L model opt loader) = map (length \<circ> snd) loader
       \<and> (\<exists>m'. validate_epoch L model loader =
            Inr (spec_mean_loss (map batch_loss (validate_trace L model loader)) (length loader),
                 spec_accuracy (map batch_correct (validate_trace L model loader))
                   (map batch_size (validate_trace L model loader)), m'))
       \<and> map batch_size (validate_trace L model loader) = map (length \<circ> snd) loader"
proof -
  from n have ne: "length loader \<noteq> 0" by auto
  have ts: "sum_list (map batch_size (train_trace L model opt loader)) \<noteq> 0"
    using n by (simp only: train_trace_sizes)
  have vs: "sum_list (map batch_size (validate_trace L model loader)) \<noteq> 0"
    using n by (simp only: validate_trace_sizes)
  from train_loop_trace[OF wf, of model opt "Fin 0" 0 0] obtain m' o' where
    "train_loop L (model, opt, Fin 0, 0, 0) loader =
       Inr (m', o', foldl fadd (Fin 0) (map batch_loss (train_trace L model opt loader)),
            sum_list (map batch_correct (train_trace L model opt loader)),
            sum_list (map batch_size (train_trace L model opt loader)))"
    by auto
  then have tr: "train_epoch L model opt loader =
            Inr (spec_mean_loss (map batch_loss (train_trace L model opt loader)) (length loader),
                 spec_accuracy (map batch_correct (train_trace L model opt loader))
                   (map batch_size (train_trace L model opt loader)), m', o')"
    using ne ts
    by (simp add: train_epoch_def fdiv_len_def percent_def spec_mean_loss_def spec_accuracy_def)
  from validate_loop_trace[OF wf, of model "Fin 0" 0 0] obtain m'' where
    "validate_loop L (model, Fin 0, 0, 0) loader =
       Inr (m'', foldl fadd (Fin 0) (map batch_loss (validate_trace L model loader)),
            sum_list (map batch_correct (validate_trace L model loader)),
            sum_list (map batch_size (validate_trace L model loader)))"
    by auto
  then have va: "validate_epoch L model loader =
            Inr (spec_mean_loss (map batch_loss (validate_trace L model loader)) (length loader),
                 spec_accuracy (map batch_correct (validate_trace L model loader))
                   (map batch_size (validate_trace L model loader)), m'')"
    using ne vs
    by (simp add: validate_epoch_def fdiv_len_def percent_def spec_mean_loss_def spec_accuracy_def)
  from tr va show ?thesis
    by (simp add: train_trace_sizes validate_trace_sizes)
qed

theorem pass_returns_means_witness:
  "train_trace (demo_lib demo_loss) 0 0 demo_loader = [(Fin 3, 1, 2), (Fin 1, 1, 1)]
   \<and> fst (projr (train_epoch (demo_lib demo_loss) 0 0 demo_loader)) = Fin 2
   \<and> fst (snd (projr (train_epoch (demo_lib demo_loss) 0 0 demo_loader))) = 200 / 3
   \<and> validate_trace (demo_lib demo_loss) 0 demo_loader = [(Fin 3, 1, 2), (Fin 3, 0, 1)]
   \<and> fst (projr (validate_epoch (demo_lib demo_loss) 0 demo_loader)) = Fin 3
   \<and> fst (snd (projr (validate_epoch (demo_lib demo_loss) 0 demo_loader))) = 100 / 3"
proof -
  have wf: "shapes_broadcast (demo_lib demo_loss) demo_loader"
    by (simp add: shapes_broadcast_def broadcastable_def demo_lib_def demo_loader_def)
  have n: "0 < sum_list (map (length \<circ> snd) demo_loader)"
    by (simp add: demo_loader_def)
  have tt: "train_trace (demo_lib demo_loss) 0 0 demo_loader = [(Fin 3, 1, 2), (Fin 1, 1, 1)]"
    by (simp add: demo_lib_def demo_loss_def demo_loader_def eq_count_def)
  have vt: "validate_trace (demo_lib demo_loss) 0 demo_loader = [(Fin 3, 1, 2), (Fin 3, 0, 1)]"
    by (simp add: demo_lib_def demo_loss_def demo_loader_def eq_count_def)
  have len: "length demo_loader = 2" by (simp add: demo_loader_def)
  from pass_returns_means[OF wf n, of 0 0] tt vt len show ?thesis
    by (auto simp: spec_mean_loss_def spec_accuracy_def batch_loss_def batch_correct_def
        batch_size_def)
qed

text \<open>
  The claim as stated fails on two non-empty loaders: one whose only batch holds no sample
  (the accuracy divides by zero), and one for whose batch of three labels the model returns
  two predictions (the comparison raises).
\<close>

theorem pass_raises_counterexample:
  "train_epoch (demo_lib demo_loss) 0 0 demo_no_sample = Inl ZeroDivisionError
   \<and> validate_epoch (demo_lib demo_loss) 0 demo_no_sample = Inl ZeroDivisionError
   \<and> train_epoch (demo_lib demo_loss) 0 0 demo_short = Inl RuntimeError
   \<and> validate_epoch (demo_lib demo_loss) 0 demo_short = Inl RuntimeError"
  by (simp add: tv_eval demo_no_sample_def demo_short_def)

section \<open>Theorems on \<^verbatim>\<open>initialise_model\<close>\<close>

lemma parameters_frozen:
  "parameters (set_parameter_requires_grad model True) = map freeze (parameters model)"
  by (simp add: parameters_def set_parameter_requires_grad_def)

text \<open>
  C5. For every name other than the two recognised ones, \<^verbatim>\<open>initialise_model\<close> prints its
  message and exits, whatever the library and the other arguments are: no constructor is
  called and no model is returned. For the two recognised names it prints nothing and
  returns a model.
\<close>

theorem initialise_model_exits_or_returns:
  "(model_name \<noteq> ''resnet_pret'' \<and> model_name \<noteq> ''densenet_pret'' \<longrightarrow>
      initialise_model TV model_name num_classes feature_extract use_pretrained
        = ([''Invalid model name, choose between 'resnet_pret', 'densenet_pret'.''],
           Inl SystemExit))
 \<and> (model_name = ''resnet_pret'' \<or> model_name = ''densenet_pret'' \<longrightarrow>
      (\<exists>model_ft. initialise_model TV model_name num_classes feature_extract use_pretrained
         = ([], Inr model_ft)))"
  by (simp add: initialise_model_def Let_def)

theorem initialise_model_exits_or_returns_witness:
  "initialise_model demo_tv ''vgg_pret'' 7 True True
     = ([''Invalid model name, choose between 'resnet_pret', 'densenet_pret'.''], Inl SystemExit)
   \<and> fst (initialise_model demo_tv ''resnet_pret'' 7 True True) = []
   \<and> isl (snd (initialise_model demo_tv ''resnet_pret'' 7 True True)) = False
   \<and> isl (snd (initialise_model demo_tv ''densenet_pret'' 7 False True)) = False"
proof -
  have a: "''vgg_pret'' \<noteq> ''resnet_pret'' \<and> ''vgg_pret'' \<noteq> ''densenet_pret''" by simp
  from initialise_model_exits_or_returns[of "''vgg_pret''" demo_tv 7 True True] a
  have 1: "initialise_model demo_tv ''vgg_pret'' 7 True True
     = ([''Invalid model name, choose between 'resnet_pret', 'densenet_pret'.''], Inl SystemExit)"
    by blast
  from initialise_model_exits_or_returns[of "''resnet_pret''" demo_tv 7 True True]
  obtain m where 2: "initialise_model demo_tv ''resnet_pret'' 7 True True = ([], Inr m)"
    by blast
  from initialise_model_exits_or_returns[of "''densenet_pret''" demo_tv 7 False True]
  obtain m' where 3: "initialise_model demo_tv ''densenet_pret'' 7 False True = ([], Inr m')"
    by blast
  from 1 2 3 show ?thesis by simp
qed

text \<open>
  C6. For a recognised name the model returned ends in a fresh linear layer with as many
  inputs as the last layer of the pretrained network had and \<^verbatim>\<open>num_classes\<close> outputs,
  whose weight and bias are trainable. With \<^verbatim>\<open>feature_extract\<close> every parameter of the
  backbone is frozen (its value untouched); without it the backbone is the one the
  constructor returned: nothing is frozen.
\<close>

theorem initialise_model_head_and_freeze:
  assumes "model_name = ''resnet_pret'' \<or> model_name = ''densenet_pret''"
  shows "\<exists>model_ft.
     initialise_model TV model_name num_classes feature_extract use_pretrained = ([], Inr model_ft)
   \<and> head model_ft
       = nn_Linear TV (in_features (head (pretrained_net TV model_name use_pretrained))) num_classes
   \<and> out_features (head model_ft) = num_classes
   \<and> requires_grad (weight (head model_ft)) \<and> requires_grad (bias (head model_ft))
   \<and> map p_value (backbone model_ft)
       = map p_value (backbone (pretrained_net TV model_name use_pretrained))
   \<and> (feature_extract \<longrightarrow> (\<forall>p\<in>set (backbone model_ft). \<not> requires_grad p))
   \<and> (\<not> feature_extract \<longrightarrow>
        backbone model_ft = backbone (pretrained_net TV model_name use_pretrained))"
  using assms
  by (auto simp: initialise_model_def Let_def set_parameter_requires_grad_def nn_Linear_def
      pretrained_net_def freeze_def comp_def)

theorem initialise_model_head_and_freeze_witness:
  "map requires_grad (parameters (projr (snd (initialise_model demo_tv ''resnet_pret'' 7 True True))))
     = [False, False, True, True]
   \<and> out_features (head (projr (snd (initialise_model demo_tv ''resnet_pret'' 7 True True)))) = 7
   \<and> in_features (head (projr (snd (initialise_model demo_tv ''resnet_pret'' 7 True True)))) = 2048
   \<and> map requires_grad
        (parameters (projr (snd (initialise_model demo_tv ''densenet_pret'' 7 False True))))
     = [True, True, True]
   \<and> out_features (head (projr (snd (initialise_model demo_tv ''densenet_pret'' 7 False True)))) = 7"
proof -
  have r: "''resnet_pret'' = ''resnet_pret'' \<or> ''resnet_pret'' = ''densenet_pret''" by simp
  have d: "''densenet_pret'' = ''resnet_pret'' \<or> ''densenet_pret'' = ''densenet_pret''" by simp
  from initialise_model_head_and_freeze[OF r, of demo_tv 7 True True]
  have 1: "out_features (head (projr (snd (initialise_model demo_tv ''resnet_pret'' 7 True True)))) = 7"
    by auto
  from initialise_model_head_and_freeze[OF d, of demo_tv 7 False True]
  have 2: "out_features (head (projr (snd (initialise_model demo_tv ''densenet_pret'' 7 False True)))) = 7"
    by auto
  have 3: "map requires_grad
        (parameters (projr (snd (initialise_model demo_tv ''resnet_pret'' 7 True True))))
     = [False, False, True, True]"
    by (simp add: initialise_model_def Let_def set_parameter_requires_grad_def nn_Linear_def
        freeze_def demo_tv_def parameters_def)
  have 4: "in_features (head (projr (snd (initialise_model demo_tv ''resnet_pret'' 7 True True))))
     = 2048"
    by (simp add: initialise_model_def Let_def set_parameter_requires_grad_def nn_Linear_def
        freeze_def demo_tv_def parameters_def)
  have 5: "map requires_grad
        (parameters (projr (snd (initialise_model demo_tv ''densenet_pret'' 7 False True))))
     = [True, True, True]"
    by (simp add: initialise_model_def Let_def set_parameter_requires_grad_def nn_Linear_def
        freeze_def demo_tv_def parameters_def)
  from 1 2 3 4 5 show ?thesis by simp
qed

section \<open>Theorems on \<^verbatim>\<open>conf_report\<close>\<close>

lemma collect_batches_eq:
  "\<exists>m'. collect_batches L training (m, yp, yt) bs =
          (m', yp @ concat (batch_predictions L training m bs), yt @ concat (map snd bs))"
proof (induction bs arbitrary: m yp yt)
  case Nil
  show ?case by simp
next
  case (Cons b bs)
  obtain data target where b: "b = (data, target)" by (cases b)
  obtain outp m1 where f: "forward L training m data = (outp, m1)"
    by (cases "forward L training m data")
  from Cons.IH[of m1 "yp @ argmax1 L outp" "yt @ target"] obtain m' where
    "collect_batches L training (m1, yp @ argmax1 L outp, yt @ target) bs =
       (m', (yp @ argmax1 L outp) @ concat (batch_predictions L training m1 bs),
        (yt @ target) @ concat (map snd bs))"
    by blast
  with b f show ?case by simp
qed

lemma batch_predictions_lengths:
  "shapes_agree L bs \<Longrightarrow>
   map length (batch_predictions L training m bs) = map (length \<circ> snd) bs"
proof (induction bs arbitrary: m)
  case Nil
  show ?case by simp
next
  case (Cons b bs)
  obtain data target where b: "b = (data, target)" by (cases b)
  obtain outp m1 where f: "forward L training m data = (outp, m1)"
    by (cases "forward L training m data")
  from Cons.prems b have
    all: "\<forall>training w. length (argmax1 L (fst (forward L training w data))) = length target"
    and rest: "shapes_agree L bs"
    by (simp_all add: shapes_agree_Cons)
  from all have "length (argmax1 L (fst (forward L training m data))) = length target" by blast
  with f have len: "length (argmax1 L outp) = length target" by simp
  from Cons.IH[OF rest, of m1] b f len show ?case by simp
qed

lemma confusion_matrix_square:
  assumes "confusion_matrix y_true y_pred = Inr cf"
  shows "length cf = length (unique_labels y_true y_pred)
       \<and> list_all (\<lambda>row. length row = length (unique_labels y_true y_pred)) cf"
  using assms
  by (auto simp: confusion_matrix_def list_all_iff split: if_splits)

lemma normalise_shape:
  "length (normalise cf) = length cf
   \<and> (list_all (\<lambda>row. length row = n) cf \<longrightarrow> list_all (\<lambda>row. length row = n) (normalise cf))"
  by (auto simp: normalise_def list_all_iff)

text \<open>
  C7, as amended. For every loader for which the model returns one prediction per label
  and among whose labels and predictions exactly seven classes occur: the loop of
  \<^verbatim>\<open>conf_report\<close> collects the predictions of the model on every batch and the labels of
  every batch, in order, one prediction and one label per sample, so that the two sequences
  have the same length, the number of samples of the loader; the confusion matrix of the
  two sequences is seven by seven; and \<^verbatim>\<open>conf_report\<close> draws its two heat maps over the
  seven class names, saves the figure under the name built from \<^verbatim>\<open>model_type\<close>, shows
  it, and prints the classification report of the two sequences over the seven names.
\<close>

theorem conf_report_collects_and_reports:
  assumes wf: "shapes_agree L loader"
    and seven: "length (unique_labels (spec_y_true loader)
                  (spec_y_pred L training model_fitted loader)) = 7"
  shows "\<exists>model_cpu cf_matrix.
       collect_batches L training (model_fitted, [], []) loader
         = (model_cpu, spec_y_pred L training model_fitted loader, spec_y_true loader)
     \<and> map length (batch_predictions L training model_fitted loader) = map (length \<circ> snd) loader
     \<and> length (spec_y_pred L training model_fitted loader) = length (spec_y_true loader)
     \<and> length (spec_y_true loader) = sum_list (map (length \<circ> snd) loader)
     \<and> length classes = 7
     \<and> confusion_matrix (spec_y_true loader) (spec_y_pred L training model_fitted loader)
         = Inr cf_matrix
     \<and> length cf_matrix = 7 \<and> list_all (\<lambda>row. length row = 7) cf_matrix
     \<and> conf_report report_text L training model_fitted loader model_type
         = ([Heatmap_normalised (normalise cf_matrix) classes, Heatmap_raw cf_matrix classes,
             Savefig (''Confusion_Matrix_'' @ model_type @ ''.png''), Show,
             Print dashes, Print (''Classification Report:'' @ [CHR 0x0A]),
             Print (report_text (spec_y_true loader)
                      (spec_y_pred L training model_fitted loader) classes),
             Print dashes], None)"
proof -
  let ?yp = "spec_y_pred L training model_fitted loader"
  let ?yt = "spec_y_true loader"
  from collect_batches_eq[of L training model_fitted "[]" "[]" loader] obtain m' where
    col: "collect_batches L training (model_fitted, [], []) loader = (m', ?yp, ?yt)"
    by (auto simp: spec_y_pred_def spec_y_true_def)
  have per: "map length (batch_predictions L training model_fitted loader)
               = map (length \<circ> snd) loader"
    using wf by (rule batch_predictions_lengths)
  have lt: "length ?yt = sum_list (map (length \<circ> snd) loader)"
    by (simp add: spec_y_true_def length_concat comp_def)
  have "length ?yp = sum_list (map length (batch_predictions L training model_fitted loader))"
    by (simp add: spec_y_pred_def length_concat)
  with per lt have eq: "length ?yp = length ?yt" by simp
  have c7: "length classes = 7" by (simp add: classes_def)
  define cf where "cf = map (\<lambda>t. map (\<lambda>p. count_list (zip ?yt ?yp) (t, p))
                              (unique_labels ?yt ?yp)) (unique_labels ?yt ?yp)"
  have cm: "confusion_matrix ?yt ?yp = Inr cf"
    using eq by (simp add: confusion_matrix_def cf_def)
  from confusion_matrix_square[OF cm] seven have
    sq: "length cf = 7" "list_all (\<lambda>row. length row = 7) cf" by simp_all
  from normalise_shape[of cf 7] sq have
    nsq: "length (normalise cf) = 7" "list_all (\<lambda>row. length row = 7) (normalise cf)"
    by simp_all
  have df: "DataFrame (normalise cf) classes classes = Inr (normalise cf)"
    using nsq c7 by (simp add: DataFrame_def)
  have rp: "classification_report report_text ?yt ?yp classes
              = Inr (report_text ?yt ?yp classes)"
    using eq seven c7 by (simp add: classification_report_def)
  have rep: "conf_report report_text L training model_fitted loader model_type
         = ([Heatmap_normalised (normalise cf) classes, Heatmap_raw cf classes,
             Savefig (''Confusion_Matrix_'' @ model_type @ ''.png''), Show,
             Print dashes, Print (''Classification Report:'' @ [CHR 0x0A]),
             Print (report_text ?yt ?yp classes), Print dashes], None)"
    using col cm df rp by (simp add: conf_report_def)
  from col per eq lt c7 cm sq rep show ?thesis by blast
qed

theorem conf_report_collects_and_reports_witness:
  "spec_y_true demo_seven = [0, 1, 2, 3, 4, 5, 6]
   \<and> spec_y_pred (demo_lib demo_loss) False 0 demo_seven = [0, 1, 0, 1, 0, 1, 0]
   \<and> length (unique_labels [0, 1, 2, 3, 4, 5, 6] [0, 1, 0, 1, 0, 1, 0]) = 7
   \<and> snd (conf_report demo_text (demo_lib demo_loss) False 0 demo_seven ''resnet'') = None
   \<and> map (\<lambda>i. fst (conf_report demo_text (demo_lib demo_loss) False 0 demo_seven ''resnet'') ! i)
        [2, 3, 4, 6]
       = [Savefig ''Confusion_Matrix_resnet.png'', Show, Print dashes, Print ''report'']"
proof -
  have wf: "shapes_agree (demo_lib demo_loss) demo_seven"
    by (simp add: shapes_agree_def demo_lib_def demo_seven_def)
  have yt: "spec_y_true demo_seven = [0, 1, 2, 3, 4, 5, 6]"
    by (simp add: spec_y_true_def demo_seven_def)
  have yp: "spec_y_pred (demo_lib demo_loss) False 0 demo_seven = [0, 1, 0, 1, 0, 1, 0]"
    by (simp add: spec_y_pred_def demo_seven_def demo_lib_def)
  have u: "length (unique_labels [0, 1, 2, 3, 4, 5, 6] [0, 1, 0, 1, 0, 1, 0]) = 7"
    by (simp add: unique_labels_def)
  have seven: "length (unique_labels (spec_y_true demo_seven)
                  (spec_y_pred (demo_lib demo_loss) False 0 demo_seven)) = 7"
    using yt yp u by simp
  from conf_report_collects_and_reports[OF wf seven, of demo_text "''resnet''"]
  obtain cf where
    "conf_report demo_text (demo_lib demo_loss) False 0 demo_seven ''resnet''
         = ([Heatmap_normalised (normalise cf) classes, Heatmap_raw cf classes,
             Savefig (''Confusion_Matrix_'' @ ''resnet'' @ ''.png''), Show,
             Print dashes, Print (''Classification Report:'' @ [CHR 0x0A]),
             Print (demo_text (spec_y_true demo_seven)
                      (spec_y_pred (demo_lib demo_loss) False 0 demo_seven) classes),
             Print dashes], None)"
    by blast
  with yt yp u show ?thesis by (simp add: demo_text_def)
qed

text \<open>
  The claim as stated fails in two ways. For a batch of one label the model may return
  three predictions: three predictions and one label are collected, and the confusion
  matrix raises. And on a loader whose labels and predictions hold two classes only, the
  confusion matrix is two by two, the data frame with seven class names raises (line 175),
  and nothing is saved or printed.
\<close>

theorem conf_report_raises_counterexample:
  "collect_batches (demo_lib demo_loss) False (0, [], []) demo_one_label = (0, [0, 0, 0], [0])
   \<and> conf_report demo_text (demo_lib demo_loss) False 0 demo_one_label ''resnet''
       = ([], Some ValueError)
   \<and> collect_batches (demo_lib demo_loss) False (0, [], []) demo_loader
       = (0, [0, 1, 0], [0, 0, 1])
   \<and> confusion_matrix [0, 0, 1] [0, 1, 0] = Inr [[1, 1], [1, 0]]
   \<and> conf_report demo_text (demo_lib demo_loss) False 0 demo_loader ''resnet''
       = ([], Some ValueError)"
  by (simp add: conf_report_def confusion_matrix_def unique_labels_def DataFrame_def normalise_def
      classes_def demo_lib_def demo_one_label_def demo_loader_def)

end
